theory Spec2Isabelle
  imports Main
begin

section \<open>The data model\<close>

text \<open>
  \<^verbatim>\<open>src/creational/Builder.cpp\<close> holds three programs, each declaring its own
  \<^verbatim>\<open>class Pizza\<close> with a nested \<^verbatim>\<open>struct Specs\<close> and \<^verbatim>\<open>class Builder\<close>: the C++17
  variant (lines 24-68), the C++20 variant (lines 71-132) and the C++23 variant
  (lines 135-200). The three \<^verbatim>\<open>Specs\<close> structs have the same members in the same order
  (\<^verbatim>\<open>crust\<close>, \<^verbatim>\<open>int size_cm = 32\<close>, \<^verbatim>\<open>toppings\<close>), so one record stands for all three;
  the operations of each variant are defined separately below, with the suffix 17,
  20 or 23.

  \<^verbatim>\<open>std::string\<close> is a \<open>string\<close>. \<^verbatim>\<open>std::string_view\<close> (C++20, C++23) is modelled by the
  characters it views: the character arrays belong to the caller (string literals
  in the three \<^verbatim>\<open>main\<close> functions), never to a Builder or a Pizza. \<^verbatim>\<open>std::vector\<close> is a
  list. Where a property depends on who owns the characters and the elements, the
  section on memory places them at addresses. \<^verbatim>\<open>size_cm\<close> is a C++ \<^verbatim>\<open>int\<close>; no arithmetic is ever done on it (it is stored and
  read back), so it is an \<open>int\<close> here.
\<close>

record Specs =
  crust :: string
  size_cm :: int
  toppings :: "string list"

text \<open>
  \<^verbatim>\<open>class Pizza\<close> has the single private member \<^verbatim>\<open>Specs specs_\<close>, the private
  constructor \<^verbatim>\<open>explicit Pizza(const Specs& s) : specs_{s} {}\<close> and the public accessor
  \<^verbatim>\<open>const Specs& specs() const { return specs_; }\<close>. \<^verbatim>\<open>class Builder\<close> has the single
  private member \<^verbatim>\<open>Specs specs_\<close>. They are two distinct types.
\<close>

datatype Pizza = Pizza (specs: Specs)

datatype Builder = Builder (Builder_specs: Specs)

section \<open>The C++17 variant (lines 29-55)\<close>

text \<open>
  \<^verbatim>\<open>Pizza::Builder{}\<close>: the default member initialisers of \<^verbatim>\<open>Specs\<close> (lines 32-34) give an
  empty \<^verbatim>\<open>std::string\<close>, 32 and an empty vector.
\<close>

definition Builder17_init :: Builder where
  "Builder17_init = Builder \<lparr>crust = [], size_cm = 32, toppings = []\<rparr>"

text \<open>
  Lines 43-46. Each member function updates \<^verbatim>\<open>specs_\<close> of \<^verbatim>\<open>*this\<close> and returns \<^verbatim>\<open>*this\<close>;
  here the builder state is passed in and the updated one returned. \<^verbatim>\<open>build\<close> has no
  check and no \<^verbatim>\<open>throw\<close>: it always returns \<^verbatim>\<open>Pizza{specs_}\<close>.
\<close>

definition crust17 :: "Builder \<Rightarrow> string \<Rightarrow> Builder" where
  "crust17 this c = Builder ((Builder_specs this)\<lparr>crust := c\<rparr>)"

definition size17 :: "Builder \<Rightarrow> int \<Rightarrow> Builder" where
  "size17 this cm = Builder ((Builder_specs this)\<lparr>size_cm := cm\<rparr>)"

definition addTopping17 :: "Builder \<Rightarrow> string \<Rightarrow> Builder" where
  "addTopping17 this t =
     Builder ((Builder_specs this)\<lparr>toppings := toppings (Builder_specs this) @ [t]\<rparr>)"

definition build17 :: "Builder \<Rightarrow> Pizza" where
  "build17 this = Pizza (Builder_specs this)"

text \<open>A chain of configuration calls on a fresh builder, as in \<^verbatim>\<open>main\<close> (lines 59-64).\<close>

datatype call17 = Crust17 string | Size17 int | AddTopping17 string

fun apply17 :: "Builder \<Rightarrow> call17 \<Rightarrow> Builder" where
  "apply17 b (Crust17 c) = crust17 b c"
| "apply17 b (Size17 cm) = size17 b cm"
| "apply17 b (AddTopping17 t) = addTopping17 b t"

definition chain17 :: "call17 list \<Rightarrow> Builder" where
  "chain17 cs = foldl apply17 Builder17_init cs"

section \<open>The C++20 variant (lines 80-116)\<close>

text \<open>
  Lines 80-81:
  \<^verbatim>\<open>template<int Min, int Max> concept InRange = requires(int v) { (v >= Min && v <= Max); };\<close>
  The body of the requires-expression is a simple requirement: the concept is
  satisfied when the expression \<^verbatim>\<open>(v >= Min && v <= Max)\<close> is well-formed for a
  parameter \<^verbatim>\<open>v\<close> of type \<^verbatim>\<open>int\<close>. The expression is an unevaluated operand and \<^verbatim>\<open>v\<close>
  has no value. The expression is represented as a term and type-checked.
\<close>

datatype cxx_type = Int_type | Bool_type

datatype cxx_expr =
    Param
  | Constant int
  | GreaterEq cxx_expr cxx_expr
  | LessEq cxx_expr cxx_expr
  | LogicalAnd cxx_expr cxx_expr

text \<open>
  The type of a well-formed expression, \<open>None\<close> for an ill-formed one. Comparison and
  \<^verbatim>\<open>&&\<close> take arithmetic operands (\<^verbatim>\<open>bool\<close> promotes to \<^verbatim>\<open>int\<close>, \<^verbatim>\<open>int\<close> converts to \<^verbatim>\<open>bool\<close>)
  and yield \<^verbatim>\<open>bool\<close>.
\<close>

fun type_of :: "cxx_expr \<Rightarrow> cxx_type option" where
  "type_of Param = Some Int_type"
| "type_of (Constant n) = Some Int_type"
| "type_of (GreaterEq a b) =
     (case (type_of a, type_of b) of (Some s, Some t) \<Rightarrow> Some Bool_type | _ \<Rightarrow> None)"
| "type_of (LessEq a b) =
     (case (type_of a, type_of b) of (Some s, Some t) \<Rightarrow> Some Bool_type | _ \<Rightarrow> None)"
| "type_of (LogicalAnd a b) =
     (case (type_of a, type_of b) of (Some s, Some t) \<Rightarrow> Some Bool_type | _ \<Rightarrow> None)"

definition InRange :: "int \<Rightarrow> int \<Rightarrow> bool" where
  "InRange Min' Max' =
     (type_of (LogicalAnd (GreaterEq Param (Constant Min')) (LessEq Param (Constant Max')))
        \<noteq> None)"

definition Builder20_init :: Builder where
  "Builder20_init = Builder \<lparr>crust = [], size_cm = 32, toppings = []\<rparr>"

definition crust20 :: "Builder \<Rightarrow> string \<Rightarrow> Builder" where
  "crust20 this c = Builder ((Builder_specs this)\<lparr>crust := c\<rparr>)"

text \<open>
  Lines 97-98: \<^verbatim>\<open>template<InRange<20, 60> Size> constexpr Builder& size(Size cm)\<close>.
  \<^verbatim>\<open>InRange<20, 60> Size\<close> is a type-constraint: it declares the type parameter \<^verbatim>\<open>Size\<close>
  and constrains it by \<^verbatim>\<open>InRange<Size, 20, 60>\<close>, the constrained type put in front of
  the written arguments. That template-id is well-formed when its arguments match
  the parameters of the concept one by one, a type for a type parameter and a
  value for a non-type parameter. The parameters of \<^verbatim>\<open>InRange\<close> are \<^verbatim>\<open>int Min, int Max\<close>
  (line 80).
\<close>

datatype template_parameter = Type_parameter | Int_parameter

datatype template_argument = Type_argument cxx_type | Int_argument int

fun argument_matches :: "template_parameter \<Rightarrow> template_argument \<Rightarrow> bool" where
  "argument_matches Type_parameter (Type_argument T) = True"
| "argument_matches Type_parameter (Int_argument n) = False"
| "argument_matches Int_parameter (Type_argument T) = False"
| "argument_matches Int_parameter (Int_argument n) = True"

definition InRange_parameters :: "template_parameter list" where
  "InRange_parameters = [Int_parameter, Int_parameter]"

definition InRange_constrains :: "int \<Rightarrow> int \<Rightarrow> cxx_type \<Rightarrow> bool" where
  "InRange_constrains Min' Max' T =
     (list_all2 argument_matches InRange_parameters
        [Type_argument T, Int_argument Min', Int_argument Max']
      \<and> InRange Min' Max')"

text \<open>
  Whether a call \<^verbatim>\<open>size(cm)\<close> with an \<^verbatim>\<open>int\<close> argument compiles: \<^verbatim>\<open>Size\<close> is deduced as
  \<^verbatim>\<open>int\<close>, whatever the value, and the constraint must hold of it. The argument is a
  function parameter, so its value cannot enter the constraint. \<open>size20\<close> is the
  body of the function, \<^verbatim>\<open>specs_.size_cm = cm\<close>.
\<close>

definition size20_accepted :: "int \<Rightarrow> bool" where
  "size20_accepted cm = InRange_constrains 20 60 Int_type"

definition size20 :: "Builder \<Rightarrow> int \<Rightarrow> Builder" where
  "size20 this cm = Builder ((Builder_specs this)\<lparr>size_cm := cm\<rparr>)"

text \<open>
  Lines 100-105: \<^verbatim>\<open>specs_.toppings.assign(begin(range), end(range))\<close>;
  \<^verbatim>\<open>vector::assign\<close> replaces the contents of the vector by the elements of the range.
\<close>

definition toppings20 :: "Builder \<Rightarrow> string list \<Rightarrow> Builder" where
  "toppings20 this range' = Builder ((Builder_specs this)\<lparr>toppings := range'\<rparr>)"

definition build20 :: "Builder \<Rightarrow> Pizza" where
  "build20 this = Pizza (Builder_specs this)"

text \<open>
  A chain of calls on a fresh builder, as in \<^verbatim>\<open>hawaiian\<close> (lines 121-125). For a
  \<open>Size20\<close> call it follows the body of \<^verbatim>\<open>size\<close>; whether the compiler accepts the
  call is \<open>size20_accepted\<close>.
\<close>

datatype call20 = Crust20 string | Size20 int | Toppings20 "string list"

fun apply20 :: "Builder \<Rightarrow> call20 \<Rightarrow> Builder" where
  "apply20 b (Crust20 c) = crust20 b c"
| "apply20 b (Size20 cm) = size20 b cm"
| "apply20 b (Toppings20 r) = toppings20 b r"

definition chain20 :: "call20 list \<Rightarrow> Builder" where
  "chain20 cs = foldl apply20 Builder20_init cs"

section \<open>The C++23 variant (lines 144-183)\<close>

definition Builder23_init :: Builder where
  "Builder23_init = Builder \<lparr>crust = [], size_cm = 32, toppings = []\<rparr>"

text \<open>
  Lines 158-169: the explicit object parameter \<^verbatim>\<open>this Builder self\<close> is taken by value;
  the function updates that copy and returns it.
\<close>

definition crust23 :: "Builder \<Rightarrow> string \<Rightarrow> Builder" where
  "crust23 self c = Builder ((Builder_specs self)\<lparr>crust := c\<rparr>)"

definition size23 :: "Builder \<Rightarrow> int \<Rightarrow> Builder" where
  "size23 self cm = Builder ((Builder_specs self)\<lparr>size_cm := cm\<rparr>)"

definition add23 :: "Builder \<Rightarrow> string \<Rightarrow> Builder" where
  "add23 self topping =
     Builder ((Builder_specs self)\<lparr>toppings := toppings (Builder_specs self) @ [topping]\<rparr>)"

datatype call23 = Crust23 string | Size23 int | Add23 string

fun apply23 :: "Builder \<Rightarrow> call23 \<Rightarrow> Builder" where
  "apply23 b (Crust23 c) = crust23 b c"
| "apply23 b (Size23 cm) = size23 b cm"
| "apply23 b (Add23 t) = add23 b t"

definition chain23 :: "call23 list \<Rightarrow> Builder" where
  "chain23 cs = foldl apply23 Builder23_init cs"

text \<open>
  Lines 170-175: \<^verbatim>\<open>consteval Pizza build(this const Builder self)\<close>. Every call of
  a \<^verbatim>\<open>consteval\<close> function is evaluated by the compiler and must be a constant
  expression. An evaluation that reaches a throw-expression, or that calls a
  function not declared \<^verbatim>\<open>constexpr\<close>, is not one: the compiler rejects the call and
  there is no value. Which functions of the variant are declared \<^verbatim>\<open>constexpr\<close>
  (\<^verbatim>\<open>consteval\<close> implies it):
  \<^verbatim>\<open>auto crust(this Builder self, ...)\<close> (line 158), \<^verbatim>\<open>auto size(...)\<close> (line 162) and
  \<^verbatim>\<open>auto add(...)\<close> (line 166) are not; \<^verbatim>\<open>consteval Pizza build(...)\<close> (line 170) is;
  the constructor \<^verbatim>\<open>explicit Pizza(const Specs& s)\<close> (line 181) is not.
\<close>

datatype function23 = Fn_crust | Fn_size | Fn_add | Fn_build | Fn_Pizza

fun declared_constexpr23 :: "function23 \<Rightarrow> bool" where
  "declared_constexpr23 Fn_crust = False"
| "declared_constexpr23 Fn_size = False"
| "declared_constexpr23 Fn_add = False"
| "declared_constexpr23 Fn_build = True"
| "declared_constexpr23 Fn_Pizza = False"

datatype consteval_error = Throw_expression string | Non_constexpr_call function23

text \<open>
  The body of \<^verbatim>\<open>build\<close>, evaluated by the compiler on a value of \<^verbatim>\<open>self\<close>:
  \<^verbatim>\<open>if (self.specs_.crust.empty()) throw "Crust type required!"; return Pizza{self.specs_};\<close>
  \<open>Inl\<close>: the evaluation is not a constant expression, and why.
\<close>

definition build23 :: "Builder \<Rightarrow> consteval_error + Pizza" where
  "build23 self =
     (if crust (Builder_specs self) = [] then Inl (Throw_expression ''Crust type required!'')
      else if declared_constexpr23 Fn_Pizza then Inr (Pizza (Builder_specs self))
      else Inl (Non_constexpr_call Fn_Pizza))"

text \<open>
  A whole call \<^verbatim>\<open>Pizza::Builder{}.c1(...). ... .cn(...).build()\<close>, as in \<^verbatim>\<open>main\<close> (lines
  190-197). The expression the compiler must evaluate includes the chain that
  computes \<^verbatim>\<open>self\<close>: the calls are evaluated in order, and the first one of a
  function that is not \<^verbatim>\<open>constexpr\<close> ends the evaluation.
\<close>

fun callee23 :: "call23 \<Rightarrow> function23" where
  "callee23 (Crust23 c) = Fn_crust"
| "callee23 (Size23 cm) = Fn_size"
| "callee23 (Add23 t) = Fn_add"

fun constant_chain23 :: "Builder \<Rightarrow> call23 list \<Rightarrow> consteval_error + Builder" where
  "constant_chain23 b [] = Inr b"
| "constant_chain23 b (c # cs) =
     (if declared_constexpr23 (callee23 c) then constant_chain23 (apply23 b c) cs
      else Inl (Non_constexpr_call (callee23 c)))"

definition immediate_build23 :: "call23 list \<Rightarrow> consteval_error + Pizza" where
  "immediate_build23 cs =
     (case constant_chain23 Builder23_init cs of Inl e \<Rightarrow> Inl e
      | Inr self \<Rightarrow> build23 self)"

section \<open>What a chain of calls sets\<close>

text \<open>
  The argument a call gives to one field, \<open>None\<close> when the call is not a setter of
  that field.
\<close>

fun crust_arg17 :: "call17 \<Rightarrow> string option" where
  "crust_arg17 (Crust17 c) = Some c"
| "crust_arg17 (Size17 cm) = None"
| "crust_arg17 (AddTopping17 t) = None"

fun size_arg17 :: "call17 \<Rightarrow> int option" where
  "size_arg17 (Crust17 c) = None"
| "size_arg17 (Size17 cm) = Some cm"
| "size_arg17 (AddTopping17 t) = None"

fun topping_arg17 :: "call17 \<Rightarrow> string option" where
  "topping_arg17 (Crust17 c) = None"
| "topping_arg17 (Size17 cm) = None"
| "topping_arg17 (AddTopping17 t) = Some t"

fun crust_arg20 :: "call20 \<Rightarrow> string option" where
  "crust_arg20 (Crust20 c) = Some c"
| "crust_arg20 (Size20 cm) = None"
| "crust_arg20 (Toppings20 r) = None"

fun size_arg20 :: "call20 \<Rightarrow> int option" where
  "size_arg20 (Crust20 c) = None"
| "size_arg20 (Size20 cm) = Some cm"
| "size_arg20 (Toppings20 r) = None"

fun toppings_arg20 :: "call20 \<Rightarrow> string list option" where
  "toppings_arg20 (Crust20 c) = None"
| "toppings_arg20 (Size20 cm) = None"
| "toppings_arg20 (Toppings20 r) = Some r"

fun crust_arg23 :: "call23 \<Rightarrow> string option" where
  "crust_arg23 (Crust23 c) = Some c"
| "crust_arg23 (Size23 cm) = None"
| "crust_arg23 (Add23 t) = None"

fun size_arg23 :: "call23 \<Rightarrow> int option" where
  "size_arg23 (Crust23 c) = None"
| "size_arg23 (Size23 cm) = Some cm"
| "size_arg23 (Add23 t) = None"

fun topping_arg23 :: "call23 \<Rightarrow> string option" where
  "topping_arg23 (Crust23 c) = None"
| "topping_arg23 (Size23 cm) = None"
| "topping_arg23 (Add23 t) = Some t"

text \<open>
  The values a chain gives to a field, in call order, and the last value set: the
  default when the chain never sets the field.
\<close>

definition values_set :: "('c \<Rightarrow> 'a option) \<Rightarrow> 'c list \<Rightarrow> 'a list" where
  "values_set arg cs = List.map_filter arg cs"

definition last_set :: "('c \<Rightarrow> 'a option) \<Rightarrow> 'a \<Rightarrow> 'c list \<Rightarrow> 'a" where
  "last_set arg dflt cs = last (dflt # values_set arg cs)"

section \<open>Objects\<close>

text \<open>
  Whether a call changes the object it is made on is not visible in the functions
  above, which only compute values. A store holds the Builder and Pizza objects of
  a client; an address is an index into it, and a new object is put at the end.
\<close>

datatype object = BuilderObj Builder | PizzaObj Pizza

type_synonym store = "object list"

definition builder_at :: "store \<Rightarrow> nat \<Rightarrow> Builder option" where
  "builder_at st a =
     (if a < length st then (case st ! a of BuilderObj b \<Rightarrow> Some b | PizzaObj z \<Rightarrow> None)
      else None)"

definition pizza_at :: "store \<Rightarrow> nat \<Rightarrow> Pizza option" where
  "pizza_at st a =
     (if a < length st then (case st ! a of BuilderObj b \<Rightarrow> None | PizzaObj z \<Rightarrow> Some z)
      else None)"

definition new_object :: "store \<Rightarrow> object \<Rightarrow> nat \<times> store" where
  "new_object st v = (length st, st @ [v])"

text \<open>
  C++17: \<^verbatim>\<open>Builder& crust(...) { ...; return *this; }\<close>. A call on the Builder at
  address \<open>a\<close> updates that object and returns a reference to it, the address \<open>a\<close>
  again. \<open>None\<close>: there is no Builder at \<open>a\<close>, and no such call.

  \<^verbatim>\<open>Pizza build() const { return Pizza{specs_}; }\<close> leaves the Builder as it is
  (\<^verbatim>\<open>const\<close>) and returns a new Pizza, whose constructor \<^verbatim>\<open>specs_{s}\<close> copies the
  Builder's \<^verbatim>\<open>Specs\<close>.
\<close>

definition call17_on :: "nat \<Rightarrow> call17 \<Rightarrow> store \<Rightarrow> (nat \<times> store) option" where
  "call17_on a c st =
     (case builder_at st a of None \<Rightarrow> None
      | Some b \<Rightarrow> Some (a, st[a := BuilderObj (apply17 b c)]))"

definition build17_on :: "nat \<Rightarrow> store \<Rightarrow> (nat \<times> store) option" where
  "build17_on a st =
     (case builder_at st a of None \<Rightarrow> None
      | Some b \<Rightarrow> Some (new_object st (PizzaObj (build17 b))))"

text \<open>
  C++23: \<^verbatim>\<open>auto crust(this Builder self, std::string_view c) { ...; return self; }\<close>.
  In a call \<^verbatim>\<open>b.crust(c)\<close> on a named Builder \<^verbatim>\<open>b\<close> the parameter \<^verbatim>\<open>self\<close> is a new
  object, copy-initialised from \<^verbatim>\<open>b\<close>; the body updates \<^verbatim>\<open>self\<close> and the result is
  initialised from it. The result is a new Builder object; the store at \<open>a\<close> is not
  written.
\<close>

definition call23_on :: "nat \<Rightarrow> call23 \<Rightarrow> store \<Rightarrow> (nat \<times> store) option" where
  "call23_on a c st =
     (case builder_at st a of None \<Rightarrow> None
      | Some b \<Rightarrow> Some (new_object st (BuilderObj (apply23 b c))))"

section \<open>Client programs of the C++17 variant\<close>

text \<open>
  What a client can do with Builder and Pizza objects, one statement at a time:
  every member function of the two classes, those they declare and those C++
  declares for them implicitly.
  \<^item> Declared by Builder: \<^verbatim>\<open>crust\<close>, \<^verbatim>\<open>size\<close>, \<^verbatim>\<open>addTopping\<close> (a configuration call) and
    \<^verbatim>\<open>build\<close>. Declared by Pizza: the accessor \<^verbatim>\<open>specs()\<close>, a \<^verbatim>\<open>const\<close> member function
    returning a \<^verbatim>\<open>const Specs&\<close>, and the constructor \<^verbatim>\<open>Pizza(const Specs&)\<close>, which is
    private (line 53): only \<^verbatim>\<open>Builder::build\<close> calls it, and a client has no
    statement for it.
  \<^item> Implicit for Builder: the default constructor (\<^verbatim>\<open>Pizza::Builder b{};\<close>), copy
    and move constructor, copy and move assignment.
  \<^item> Implicit for Pizza: copy constructor (\<^verbatim>\<open>Pizza p2 = q;\<close>), move constructor
    (\<^verbatim>\<open>Pizza p2 = std::move(q);\<close>), copy assignment (\<^verbatim>\<open>p = q;\<close>) and move assignment
    (\<^verbatim>\<open>p = std::move(q);\<close>). Class Pizza declares none of them and no destructor, and
    its only member \<^verbatim>\<open>Specs specs_\<close> is neither \<^verbatim>\<open>const\<close> nor a reference, so all four
    are declared, public, and act on \<^verbatim>\<open>specs_\<close> member by member.

  A move leaves the \<^verbatim>\<open>std::string\<close> and the \<^verbatim>\<open>std::vector\<close> of its source in a valid
  state that the standard does not specify (the usual libraries leave them
  empty) and copies the \<^verbatim>\<open>int\<close>. The state left is an argument of the statement, so
  every choice of the library is covered.
\<close>

definition moved_from :: "Specs \<Rightarrow> string \<Rightarrow> string list \<Rightarrow> Specs" where
  "moved_from s left_crust left_toppings = s\<lparr>crust := left_crust, toppings := left_toppings\<rparr>"

datatype action17 =
    New_Builder
  | Configure nat call17
  | Build nat
  | Read_Specs nat
  | Copy_Pizza nat
  | Assign_Pizza nat nat
  | Move_Pizza nat string "string list"
  | Move_Assign_Pizza nat nat string "string list"
  | Copy_Builder nat
  | Assign_Builder nat nat
  | Move_Builder nat string "string list"
  | Move_Assign_Builder nat nat string "string list"

text \<open>
  \<open>Assign_Pizza p q\<close> is \<^verbatim>\<open>p = q;\<close> and \<open>Move_Assign_Pizza p q ...\<close> is
  \<^verbatim>\<open>p = std::move(q);\<close>: the first address is the target. \<open>None\<close>: an address does
  not hold an object of the class the statement needs.
\<close>

fun perform17 :: "action17 \<Rightarrow> store \<Rightarrow> store option" where
  "perform17 New_Builder st = Some (snd (new_object st (BuilderObj Builder17_init)))"
| "perform17 (Configure a c) st = map_option snd (call17_on a c st)"
| "perform17 (Build a) st = map_option snd (build17_on a st)"
| "perform17 (Read_Specs p) st = (case pizza_at st p of None \<Rightarrow> None | Some z \<Rightarrow> Some st)"
| "perform17 (Copy_Pizza q) st =
     (case pizza_at st q of None \<Rightarrow> None
      | Some z \<Rightarrow> Some (snd (new_object st (PizzaObj z))))"
| "perform17 (Assign_Pizza p q) st =
     (case pizza_at st p of None \<Rightarrow> None
      | Some old \<Rightarrow>
          (case pizza_at st q of None \<Rightarrow> None
           | Some z \<Rightarrow> Some (st[p := PizzaObj z])))"
| "perform17 (Move_Pizza q lc lt) st =
     (case pizza_at st q of None \<Rightarrow> None
      | Some z \<Rightarrow>
          Some (snd (new_object (st[q := PizzaObj (Pizza (moved_from (specs z) lc lt))])
                      (PizzaObj z))))"
| "perform17 (Move_Assign_Pizza p q lc lt) st =
     (case pizza_at st p of None \<Rightarrow> None
      | Some old \<Rightarrow>
          (case pizza_at st q of None \<Rightarrow> None
           | Some z \<Rightarrow>
               Some (st[p := PizzaObj z, q := PizzaObj (Pizza (moved_from (specs z) lc lt))])))"
| "perform17 (Copy_Builder a) st =
     (case builder_at st a of None \<Rightarrow> None
      | Some b \<Rightarrow> Some (snd (new_object st (BuilderObj b))))"
| "perform17 (Assign_Builder a a') st =
     (case builder_at st a of None \<Rightarrow> None
      | Some old \<Rightarrow>
          (case builder_at st a' of None \<Rightarrow> None
           | Some b \<Rightarrow> Some (st[a := BuilderObj b])))"
| "perform17 (Move_Builder a lc lt) st =
     (case builder_at st a of None \<Rightarrow> None
      | Some b \<Rightarrow>
          Some (snd (new_object
                      (st[a := BuilderObj (Builder (moved_from (Builder_specs b) lc lt))])
                      (BuilderObj b))))"
| "perform17 (Move_Assign_Builder a a' lc lt) st =
     (case builder_at st a of None \<Rightarrow> None
      | Some old \<Rightarrow>
          (case builder_at st a' of None \<Rightarrow> None
           | Some b \<Rightarrow>
               Some (st[a := BuilderObj b,
                        a' := BuilderObj (Builder (moved_from (Builder_specs b) lc lt))])))"

fun program17 :: "action17 list \<Rightarrow> store \<Rightarrow> store option" where
  "program17 [] st = Some st"
| "program17 (act # acts) st =
     (case perform17 act st of None \<Rightarrow> None | Some st' \<Rightarrow> program17 acts st')"

text \<open>
  Whether a statement assigns to the Pizza at \<open>p\<close> or moves from it, and the Pizza
  a statement copies or moves from.
\<close>

fun overwrites :: "nat \<Rightarrow> action17 \<Rightarrow> bool" where
  "overwrites p (Assign_Pizza p' q) = (p' = p)"
| "overwrites p (Move_Pizza q lc lt) = (q = p)"
| "overwrites p (Move_Assign_Pizza p' q lc lt) = (p' = p \<or> q = p)"
| "overwrites p New_Builder = False"
| "overwrites p (Configure a c) = False"
| "overwrites p (Build a) = False"
| "overwrites p (Read_Specs p') = False"
| "overwrites p (Copy_Pizza q) = False"
| "overwrites p (Copy_Builder a) = False"
| "overwrites p (Assign_Builder a a') = False"
| "overwrites p (Move_Builder a lc lt) = False"
| "overwrites p (Move_Assign_Builder a a' lc lt) = False"

fun source_of :: "action17 \<Rightarrow> nat option" where
  "source_of (Copy_Pizza q) = Some q"
| "source_of (Assign_Pizza p q) = Some q"
| "source_of (Move_Pizza q lc lt) = Some q"
| "source_of (Move_Assign_Pizza p q lc lt) = Some q"
| "source_of New_Builder = None"
| "source_of (Configure a c) = None"
| "source_of (Build a) = None"
| "source_of (Read_Specs p) = None"
| "source_of (Copy_Builder a) = None"
| "source_of (Assign_Builder a a') = None"
| "source_of (Move_Builder a lc lt) = None"
| "source_of (Move_Assign_Builder a a' lc lt) = None"

section \<open>Memory\<close>

text \<open>
  Whether two Pizzas share storage depends on what their \<^verbatim>\<open>Specs\<close> are made of. A
  memory holds character arrays and the element arrays of vectors; an address is
  an index into it, and an allocation puts a new cell at the end.
  \<^item> A \<^verbatim>\<open>std::string\<close> (C++17: \<^verbatim>\<open>crust\<close> and each topping) owns a character array; its
    copy constructor allocates a new array with the same characters.
  \<^item> A \<^verbatim>\<open>std::string_view\<close> (C++20: \<^verbatim>\<open>crust\<close> and each topping) is a pointer to
    characters and a length. It owns nothing; a copy of it points to the same
    characters.
  \<^item> A \<^verbatim>\<open>std::vector\<close> owns an array of elements; its copy constructor allocates a
    new array and copy-constructs each element into it.
  A \<^verbatim>\<open>Specs\<close> object is then the address of the characters of \<^verbatim>\<open>crust\<close>, the \<^verbatim>\<open>int\<close> and
  the address of the element array of \<^verbatim>\<open>toppings\<close>, whose elements are addresses of
  characters.
\<close>

datatype cell = Chars string | Elems "nat list"

type_synonym memory = "cell list"

definition chars_at :: "memory \<Rightarrow> nat \<Rightarrow> string option" where
  "chars_at m a =
     (if a < length m then (case m ! a of Chars s \<Rightarrow> Some s | Elems es \<Rightarrow> None) else None)"

definition elems_at :: "memory \<Rightarrow> nat \<Rightarrow> nat list option" where
  "elems_at m a =
     (if a < length m then (case m ! a of Chars s \<Rightarrow> None | Elems es \<Rightarrow> Some es) else None)"

record Specs_rep =
  crust_ptr :: nat
  size_val :: int
  toppings_ptr :: nat

text \<open>What \<^verbatim>\<open>specs()\<close> shows of a \<^verbatim>\<open>Specs\<close> object in a memory.\<close>

definition observe :: "memory \<Rightarrow> Specs_rep \<Rightarrow> Specs option" where
  "observe m r =
     (case chars_at m (crust_ptr r) of None \<Rightarrow> None
      | Some c \<Rightarrow>
          (case elems_at m (toppings_ptr r) of None \<Rightarrow> None
           | Some es \<Rightarrow>
               (case those (map (chars_at m) es) of None \<Rightarrow> None
                | Some ts \<Rightarrow> Some \<lparr>crust = c, size_cm = size_val r, toppings = ts\<rparr>)))"

text \<open>
  \<^verbatim>\<open>Pizza build() const { return Pizza{specs_}; }\<close> with \<^verbatim>\<open>Pizza(const Specs& s) : specs_{s}\<close>
  copy-constructs the \<^verbatim>\<open>Specs\<close> of the new Pizza from the Builder's, member by member
  (lines 46 and 53, 107 and 114). \<open>b\<close> is the Builder's \<^verbatim>\<open>specs_\<close>, the result the new
  Pizza's \<^verbatim>\<open>specs_\<close>.

  C++17, \<^verbatim>\<open>std::string crust; std::vector<std::string> toppings\<close>: new characters for
  the crust, a new element array, and new characters for each topping.
\<close>

definition build17_mem :: "memory \<Rightarrow> Specs_rep \<Rightarrow> (Specs_rep \<times> memory) option" where
  "build17_mem m b =
     (case observe m b of None \<Rightarrow> None
      | Some s \<Rightarrow>
          Some (\<lparr>crust_ptr = length m, size_val = size_val b, toppings_ptr = length m + 1\<rparr>,
                m @ [Chars (crust s),
                     Elems [length m + 2 ..< length m + 2 + length (toppings s)]]
                  @ map Chars (toppings s)))"

text \<open>
  C++20, \<^verbatim>\<open>std::string_view crust; std::vector<std::string_view> toppings\<close>: the crust
  pointer is copied, and a new element array holds copies of the topping pointers.
\<close>

definition build20_mem :: "memory \<Rightarrow> Specs_rep \<Rightarrow> (Specs_rep \<times> memory) option" where
  "build20_mem m b =
     (case observe m b of None \<Rightarrow> None
      | Some s \<Rightarrow>
          (case elems_at m (toppings_ptr b) of None \<Rightarrow> None
           | Some es \<Rightarrow>
               Some (\<lparr>crust_ptr = crust_ptr b, size_val = size_val b, toppings_ptr = length m\<rparr>,
                     m @ [Elems es])))"

text \<open>
  The cells a \<^verbatim>\<open>Specs\<close> object reads: its crust characters, its element array and
  the characters of its toppings. A C++17 \<^verbatim>\<open>Specs\<close> owns all of them; a C++20 \<^verbatim>\<open>Specs\<close>
  owns the element array only.
\<close>

definition cells_of :: "memory \<Rightarrow> Specs_rep \<Rightarrow> nat list" where
  "cells_of m r =
     crust_ptr r # toppings_ptr r #
       (case elems_at m (toppings_ptr r) of None \<Rightarrow> [] | Some es \<Rightarrow> es)"

section \<open>Chains of calls\<close>

lemma values_set_Nil: "values_set arg [] = []"
  by (simp add: values_set_def)

lemma values_set_Cons:
  "values_set arg (c # cs) =
     (case arg c of None \<Rightarrow> values_set arg cs | Some v \<Rightarrow> v # values_set arg cs)"
  by (simp add: values_set_def split: option.split)

lemma last_set_Nil: "last_set arg d [] = d"
  by (simp add: last_set_def values_set_Nil)

lemma last_set_Cons:
  "last_set arg d (c # cs) = last_set arg (case arg c of None \<Rightarrow> d | Some v \<Rightarrow> v) cs"
  by (simp add: last_set_def values_set_Cons split: option.split)

lemma foldl_apply17:
  "Builder_specs (foldl apply17 b cs) =
     \<lparr>crust = last_set crust_arg17 (crust (Builder_specs b)) cs,
      size_cm = last_set size_arg17 (size_cm (Builder_specs b)) cs,
      toppings = toppings (Builder_specs b) @ values_set topping_arg17 cs\<rparr>"
proof (induction cs arbitrary: b)
  case Nil
  show ?case by (simp add: last_set_Nil values_set_Nil)
next
  case (Cons c cs)
  show ?case
    by (cases c)
      (simp_all add: Cons.IH last_set_Cons values_set_Cons crust17_def size17_def addTopping17_def)
qed

lemma foldl_apply20:
  "Builder_specs (foldl apply20 b cs) =
     \<lparr>crust = last_set crust_arg20 (crust (Builder_specs b)) cs,
      size_cm = last_set size_arg20 (size_cm (Builder_specs b)) cs,
      toppings = last_set toppings_arg20 (toppings (Builder_specs b)) cs\<rparr>"
proof (induction cs arbitrary: b)
  case Nil
  show ?case by (simp add: last_set_Nil)
next
  case (Cons c cs)
  show ?case
    by (cases c)
      (simp_all add: Cons.IH last_set_Cons crust20_def size20_def toppings20_def)
qed

lemma foldl_apply23:
  "Builder_specs (foldl apply23 b cs) =
     \<lparr>crust = last_set crust_arg23 (crust (Builder_specs b)) cs,
      size_cm = last_set size_arg23 (size_cm (Builder_specs b)) cs,
      toppings = toppings (Builder_specs b) @ values_set topping_arg23 cs\<rparr>"
proof (induction cs arbitrary: b)
  case Nil
  show ?case by (simp add: last_set_Nil values_set_Nil)
next
  case (Cons c cs)
  show ?case
    by (cases c)
      (simp_all add: Cons.IH last_set_Cons values_set_Cons crust23_def size23_def add23_def)
qed

lemma chain17_specs:
  "Builder_specs (chain17 cs) =
     \<lparr>crust = last_set crust_arg17 [] cs, size_cm = last_set size_arg17 32 cs,
      toppings = values_set topping_arg17 cs\<rparr>"
  by (simp add: chain17_def foldl_apply17 Builder17_init_def)

lemma chain20_specs:
  "Builder_specs (chain20 cs) =
     \<lparr>crust = last_set crust_arg20 [] cs, size_cm = last_set size_arg20 32 cs,
      toppings = last_set toppings_arg20 [] cs\<rparr>"
  by (simp add: chain20_def foldl_apply20 Builder20_init_def)

lemma chain23_specs:
  "Builder_specs (chain23 cs) =
     \<lparr>crust = last_set crust_arg23 [] cs, size_cm = last_set size_arg23 32 cs,
      toppings = values_set topping_arg23 cs\<rparr>"
  by (simp add: chain23_def foldl_apply23 Builder23_init_def)

lemma last_set_never: "values_set arg cs = [] \<Longrightarrow> last_set arg d cs = d"
  by (simp add: last_set_def)

lemma foldl_addTopping17:
  "Builder_specs (foldl addTopping17 b ts) =
     (Builder_specs b)\<lparr>toppings := toppings (Builder_specs b) @ ts\<rparr>"
  by (induction ts arbitrary: b) (simp_all add: addTopping17_def)

lemma foldl_add23:
  "Builder_specs (foldl add23 b ts) =
     (Builder_specs b)\<lparr>toppings := toppings (Builder_specs b) @ ts\<rparr>"
  by (induction ts arbitrary: b) (simp_all add: add23_def)

section \<open>Reading the store\<close>

lemma builder_at_append:
  "builder_at (st @ [v]) x =
     (if x < length st then builder_at st x
      else if x = length st then (case v of BuilderObj b \<Rightarrow> Some b | PizzaObj z \<Rightarrow> None)
      else None)"
  by (simp add: builder_at_def nth_append)

lemma pizza_at_append:
  "pizza_at (st @ [v]) x =
     (if x < length st then pizza_at st x
      else if x = length st then (case v of BuilderObj b \<Rightarrow> None | PizzaObj z \<Rightarrow> Some z)
      else None)"
  by (simp add: pizza_at_def nth_append)

lemma builder_at_update:
  "builder_at (st[a := v]) x =
     (if x = a \<and> a < length st then (case v of BuilderObj b \<Rightarrow> Some b | PizzaObj z \<Rightarrow> None)
      else builder_at st x)"
  by (auto simp add: builder_at_def)

lemma pizza_at_update:
  "pizza_at (st[a := v]) x =
     (if x = a \<and> a < length st then (case v of BuilderObj b \<Rightarrow> None | PizzaObj z \<Rightarrow> Some z)
      else pizza_at st x)"
  by (auto simp add: pizza_at_def)

lemma builder_at_less: "builder_at st a = Some b \<Longrightarrow> a < length st"
  by (simp add: builder_at_def split: if_splits)

lemma pizza_at_less: "pizza_at st a = Some z \<Longrightarrow> a < length st"
  by (simp add: pizza_at_def split: if_splits)

lemma builder_at_out: "\<not> a < length st \<Longrightarrow> builder_at st a = None"
  by (simp add: builder_at_def)

lemma pizza_at_out: "\<not> a < length st \<Longrightarrow> pizza_at st a = None"
  by (simp add: pizza_at_def)

lemma pizza_at_builder_at: "builder_at st a = Some b \<Longrightarrow> pizza_at st a = None"
  by (simp add: builder_at_def pizza_at_def split: if_splits object.splits)

text \<open>
  In the C++17 variant a configuration call writes the object it is made on: the
  contrast to \<open>call23_on\<close>.
\<close>

lemma call17_on_updates_receiver:
  "builder_at st a = Some b \<Longrightarrow>
     call17_on a c st = Some (a, st[a := BuilderObj (apply17 b c)])
     \<and> builder_at (st[a := BuilderObj (apply17 b c)]) a = Some (apply17 b c)"
  by (simp add: call17_on_def builder_at_update builder_at_less)

section \<open>Statements of a client\<close>

lemma perform17_keeps_pizza:
  assumes "perform17 act st = Some st'" and "pizza_at st p = Some z"
    and "\<not> overwrites p act"
  shows "pizza_at st' p = Some z"
proof (cases act)
  case New_Builder
  with assms show ?thesis
    by (auto simp add: new_object_def pizza_at_append dest: pizza_at_less)
next
  case (Configure a c)
  with assms show ?thesis
    by (auto simp add: call17_on_def pizza_at_update pizza_at_builder_at
        split: option.splits if_splits)
next
  case (Build a)
  with assms show ?thesis
    by (auto simp add: build17_on_def new_object_def pizza_at_append
        split: option.splits dest: pizza_at_less)
next
  case (Read_Specs q)
  with assms show ?thesis
    by (auto split: option.splits)
next
  case (Copy_Pizza q)
  with assms show ?thesis
    by (auto simp add: new_object_def pizza_at_append split: option.splits dest: pizza_at_less)
next
  case (Assign_Pizza p' q)
  with assms show ?thesis
    by (auto simp add: pizza_at_update split: option.splits if_splits)
next
  case (Move_Pizza q lc lt)
  with assms show ?thesis
    by (auto simp add: new_object_def pizza_at_append pizza_at_update
        split: option.splits dest: pizza_at_less)
next
  case (Move_Assign_Pizza p' q lc lt)
  with assms show ?thesis
    by (auto simp add: pizza_at_update split: option.splits if_splits)
next
  case (Copy_Builder a)
  with assms show ?thesis
    by (auto simp add: new_object_def pizza_at_append split: option.splits dest: pizza_at_less)
next
  case (Assign_Builder a a')
  with assms show ?thesis
    by (auto simp add: pizza_at_update pizza_at_builder_at split: option.splits if_splits)
next
  case (Move_Builder a lc lt)
  with assms show ?thesis
    by (auto simp add: new_object_def pizza_at_append pizza_at_update pizza_at_builder_at
        split: option.splits dest: pizza_at_less)
next
  case (Move_Assign_Builder a a' lc lt)
  with assms show ?thesis
    by (auto simp add: pizza_at_update pizza_at_builder_at split: option.splits if_splits)
qed

lemma perform17_pizza_origin:
  assumes "perform17 act st = Some st'" and "pizza_at st' q = Some y"
  shows "pizza_at st q = Some y
     \<or> (\<exists>a b. act = Build a \<and> builder_at st a = Some b \<and> q = length st \<and> y = build17 b)
     \<or> (\<exists>q'. source_of act = Some q' \<and> pizza_at st q' = Some y)
     \<or> (\<exists>z lc lt. source_of act = Some q \<and> pizza_at st q = Some z
            \<and> y = Pizza (moved_from (specs z) lc lt))"
proof (cases act)
  case New_Builder
  with assms show ?thesis
    by (auto simp add: new_object_def pizza_at_append split: if_splits)
next
  case (Configure a c)
  with assms show ?thesis
    by (auto simp add: call17_on_def pizza_at_update split: option.splits if_splits)
next
  case (Build a)
  with assms show ?thesis
    by (auto simp add: build17_on_def new_object_def pizza_at_append
        split: option.splits if_splits)
next
  case (Read_Specs p)
  with assms show ?thesis
    by (auto split: option.splits)
next
  case (Copy_Pizza q')
  with assms show ?thesis
    by (auto simp add: new_object_def pizza_at_append split: option.splits if_splits)
next
  case (Assign_Pizza p' q')
  with assms show ?thesis
    by (auto simp add: pizza_at_update split: option.splits if_splits)
next
  case (Move_Pizza q' lc lt)
  with assms show ?thesis
    by (auto simp add: new_object_def pizza_at_append pizza_at_update
        split: option.splits if_splits; blast)
next
  case (Move_Assign_Pizza p' q' lc lt)
  with assms show ?thesis
    by (auto simp add: pizza_at_update split: option.splits if_splits; blast)
next
  case (Copy_Builder a)
  with assms show ?thesis
    by (auto simp add: new_object_def pizza_at_append split: option.splits if_splits)
next
  case (Assign_Builder a a')
  with assms show ?thesis
    by (auto simp add: pizza_at_update split: option.splits if_splits)
next
  case (Move_Builder a lc lt)
  with assms show ?thesis
    by (auto simp add: new_object_def pizza_at_append pizza_at_update
        split: option.splits if_splits)
next
  case (Move_Assign_Builder a a' lc lt)
  with assms show ?thesis
    by (auto simp add: pizza_at_update split: option.splits if_splits)
qed

lemma program17_keeps_pizza:
  assumes "program17 acts st = Some st'" and "pizza_at st p = Some z"
    and "\<not> list_ex (overwrites p) acts"
  shows "pizza_at st' p = Some z"
  using assms
proof (induction acts arbitrary: st)
  case Nil
  then show ?case by simp
next
  case (Cons act acts)
  from Cons.prems(1) obtain st1 where step: "perform17 act st = Some st1"
    and rest: "program17 acts st1 = Some st'"
    by (auto split: option.splits)
  from Cons.prems(3) have here: "\<not> overwrites p act" and later: "\<not> list_ex (overwrites p) acts"
    by simp_all
  from step Cons.prems(2) here have "pizza_at st1 p = Some z"
    by (rule perform17_keeps_pizza)
  with rest show ?case using later by (rule Cons.IH)
qed

lemma build23_never_returns: "build23 self \<noteq> Inr z"
  by (simp add: build23_def)

lemma immediate_build23_never_returns: "immediate_build23 cs \<noteq> Inr z"
  by (cases cs) (auto simp add: immediate_build23_def build23_def split: sum.splits)

lemma immediate_build23_Cons:
  "immediate_build23 (c # cs) = Inl (Non_constexpr_call (callee23 c))"
  by (cases c) (simp_all add: immediate_build23_def)

lemma last_set_Nil_default: "last_set arg d cs \<noteq> d \<Longrightarrow> cs \<noteq> []"
  by (auto simp add: last_set_Nil)

section \<open>Reading the memory\<close>

lemma chars_at_less: "chars_at m a = Some s \<Longrightarrow> a < length m"
  by (simp add: chars_at_def split: if_splits)

lemma elems_at_less: "elems_at m a = Some es \<Longrightarrow> a < length m"
  by (simp add: elems_at_def split: if_splits)

lemma chars_at_append: "a < length m \<Longrightarrow> chars_at (m @ ext) a = chars_at m a"
  by (simp add: chars_at_def nth_append)

lemma elems_at_append: "a < length m \<Longrightarrow> elems_at (m @ ext) a = elems_at m a"
  by (simp add: elems_at_def nth_append)

lemma chars_at_update: "x \<noteq> a \<Longrightarrow> chars_at (m[x := c]) a = chars_at m a"
  by (simp add: chars_at_def)

lemma elems_at_update: "x \<noteq> a \<Longrightarrow> elems_at (m[x := c]) a = elems_at m a"
  by (simp add: elems_at_def)

lemma those_map_Some: "those (map Some xs) = Some xs"
  by (induction xs) simp_all

lemma those_Some_defined: "those xs = Some ys \<Longrightarrow> x \<in> set xs \<Longrightarrow> \<exists>y. x = Some y"
  by (induction xs arbitrary: ys) (auto split: option.splits)

lemma observe_same:
  assumes "\<forall>a \<in> set (cells_of m r). chars_at m' a = chars_at m a \<and> elems_at m' a = elems_at m a"
  shows "observe m' r = observe m r"
proof -
  from assms have c: "chars_at m' (crust_ptr r) = chars_at m (crust_ptr r)"
    by (simp add: cells_of_def)
  from assms have e: "elems_at m' (toppings_ptr r) = elems_at m (toppings_ptr r)"
    by (simp add: cells_of_def)
  show ?thesis
  proof (cases "elems_at m (toppings_ptr r)")
    case None
    then show ?thesis by (simp add: observe_def c e split: option.splits)
  next
    case (Some es)
    with assms have t: "map (chars_at m') es = map (chars_at m) es"
      by (simp add: cells_of_def)
    show ?thesis
      unfolding observe_def c e by (simp only: Some option.case t)
  qed
qed

lemma observe_cells_less:
  assumes "observe m r = Some s" and "a \<in> set (cells_of m r)"
  shows "a < length m"
proof -
  from assms(1) obtain c es ts where c: "chars_at m (crust_ptr r) = Some c"
    and es: "elems_at m (toppings_ptr r) = Some es"
    and ts: "those (map (chars_at m) es) = Some ts"
    by (auto simp add: observe_def split: option.splits)
  from assms(2) es consider "a = crust_ptr r" | "a = toppings_ptr r" | "a \<in> set es"
    by (auto simp add: cells_of_def)
  then show ?thesis
  proof cases
    case 1
    with c show ?thesis by (simp add: chars_at_less)
  next
    case 2
    with es show ?thesis by (simp add: elems_at_less)
  next
    case 3
    then have "chars_at m a \<in> set (map (chars_at m) es)" by simp
    with ts obtain y where "chars_at m a = Some y" by (blast dest: those_Some_defined)
    then show ?thesis by (rule chars_at_less)
  qed
qed

lemma observe_append:
  assumes "observe m r = Some s"
  shows "observe (m @ ext) r = Some s"
proof -
  have "\<forall>a \<in> set (cells_of m r).
      chars_at (m @ ext) a = chars_at m a \<and> elems_at (m @ ext) a = elems_at m a"
    using observe_cells_less [OF assms] by (simp add: chars_at_append elems_at_append)
  then have "observe (m @ ext) r = observe m r" by (rule observe_same)
  with assms show ?thesis by simp
qed

lemma cells_of_append:
  assumes "observe m r = Some s"
  shows "cells_of (m @ ext) r = cells_of m r"
proof -
  have "toppings_ptr r < length m"
    using observe_cells_less [OF assms, of "toppings_ptr r"] by (simp add: cells_of_def)
  then show ?thesis by (simp add: cells_of_def elems_at_append)
qed

lemma observe_update:
  assumes "observe m r = Some s" and "x \<notin> set (cells_of m r)"
  shows "observe (m[x := c]) r = Some s"
proof -
  have "\<forall>a \<in> set (cells_of m r).
      chars_at (m[x := c]) a = chars_at m a \<and> elems_at (m[x := c]) a = elems_at m a"
  proof
    fix a
    assume "a \<in> set (cells_of m r)"
    with assms(2) have "x \<noteq> a" by blast
    then show "chars_at (m[x := c]) a = chars_at m a \<and> elems_at (m[x := c]) a = elems_at m a"
      by (simp add: chars_at_update elems_at_update)
  qed
  then have "observe (m[x := c]) r = observe m r" by (rule observe_same)
  with assms show ?thesis by simp
qed

lemma chars_at_new:
  "map (chars_at (m @ pre @ map Chars ts)) [length m + length pre ..< length m + length pre + length ts]
     = map Some ts"
  by (rule nth_equalityI) (simp_all add: chars_at_def nth_append)

lemma build17_mem_Some:
  assumes "observe m b = Some s"
  shows "build17_mem m b =
     Some (\<lparr>crust_ptr = length m, size_val = size_val b, toppings_ptr = length m + 1\<rparr>,
           m @ [Chars (crust s), Elems [length m + 2 ..< length m + 2 + length (toppings s)]]
             @ map Chars (toppings s))"
  using assms by (simp add: build17_mem_def)

lemma size_val_observe: "observe m r = Some s \<Longrightarrow> size_cm s = size_val r"
  by (auto simp add: observe_def split: option.splits)

lemma observe_new17:
  "observe (m @ [Chars c, Elems [length m + 2 ..< length m + 2 + length ts]] @ map Chars ts)
      \<lparr>crust_ptr = length m, size_val = n, toppings_ptr = length m + 1\<rparr>
     = Some \<lparr>crust = c, size_cm = n, toppings = ts\<rparr>"
proof -
  let ?m' = "m @ [Chars c, Elems [length m + 2 ..< length m + 2 + length ts]] @ map Chars ts"
  have c: "chars_at ?m' (length m) = Some c"
    by (simp add: chars_at_def nth_append)
  have e: "elems_at ?m' (length m + 1) = Some [length m + 2 ..< length m + 2 + length ts]"
    by (simp add: elems_at_def nth_append)
  have "map (chars_at (m @ [Chars c, Elems [length m + 2 ..< length m + 2 + length ts]]
      @ map Chars ts))
      [length m + length [Chars c, Elems [length m + 2 ..< length m + 2 + length ts]] ..<
       length m + length [Chars c, Elems [length m + 2 ..< length m + 2 + length ts]] + length ts]
     = map Some ts"
    by (rule chars_at_new)
  then have t: "map (chars_at ?m') [length m + 2 ..< length m + 2 + length ts] = map Some ts"
    by simp
  show ?thesis
    unfolding observe_def by (simp only: c e t those_map_Some Specs_rep.simps option.simps)
qed

lemma cells_of_new17:
  "cells_of (m @ [Chars c, Elems [length m + 2 ..< length m + 2 + length ts]] @ map Chars ts)
      \<lparr>crust_ptr = length m, size_val = n, toppings_ptr = length m + 1\<rparr>
     = [length m ..< length m + 2 + length ts]"
proof -
  let ?m' = "m @ [Chars c, Elems [length m + 2 ..< length m + 2 + length ts]] @ map Chars ts"
  have e: "elems_at ?m' (length m + 1) = Some [length m + 2 ..< length m + 2 + length ts]"
    by (simp add: elems_at_def nth_append)
  have "[length m ..< length m + 2 + length ts]
      = length m # (length m + 1) # [length m + 2 ..< length m + 2 + length ts]"
    by (simp add: upt_rec)
  then show ?thesis
    unfolding cells_of_def by (simp only: e Specs_rep.simps option.simps)
qed

lemma build17_mem_fresh:
  assumes "observe m b = Some s"
  shows "\<exists>p m'. build17_mem m b = Some (p, m') \<and> observe m' p = Some s
      \<and> set (cells_of m' p) = {length m ..< length m'} \<and> length m < length m'
      \<and> (\<forall>r t. observe m r = Some t \<longrightarrow>
            observe m' r = Some t \<and> cells_of m' r = cells_of m r)"
proof -
  define ext where
    "ext = [Chars (crust s), Elems [length m + 2 ..< length m + 2 + length (toppings s)]]
             @ map Chars (toppings s)"
  define p where
    "p = \<lparr>crust_ptr = length m, size_val = size_val b, toppings_ptr = length m + 1\<rparr>"
  have sz: "size_cm s = size_val b" using assms by (rule size_val_observe)
  have s_eq: "\<lparr>crust = crust s, size_cm = size_val b, toppings = toppings s\<rparr> = s"
    using sz by simp
  have first: "build17_mem m b = Some (p, m @ ext)"
    unfolding p_def ext_def using assms by (rule build17_mem_Some)
  have o: "observe (m @ ext) p = Some s"
    unfolding p_def ext_def
    using observe_new17 [of m "crust s" "toppings s" "size_val b"] s_eq by simp
  have c: "cells_of (m @ ext) p = [length m ..< length m + 2 + length (toppings s)]"
    unfolding p_def ext_def by (rule cells_of_new17)
  have l: "length (m @ ext) = length m + 2 + length (toppings s)"
    by (simp add: ext_def)
  have cs: "set (cells_of (m @ ext) p) = {length m ..< length (m @ ext)}"
    by (simp only: c l set_upt)
  have keep: "\<forall>r t. observe m r = Some t \<longrightarrow>
      observe (m @ ext) r = Some t \<and> cells_of (m @ ext) r = cells_of m r"
    by (simp add: observe_append cells_of_append)
  have lt: "length m < length (m @ ext)" by (simp add: ext_def)
  from first o cs lt keep show ?thesis by blast
qed

lemma build17_mem_twice:
  assumes "observe m b = Some s"
  shows "\<exists>p1 m1 p2 m2.
      build17_mem m b = Some (p1, m1) \<and> build17_mem m1 b = Some (p2, m2)
      \<and> observe m2 p1 = Some s \<and> observe m2 p2 = Some s \<and> observe m2 b = Some s
      \<and> set (cells_of m2 p1) \<inter> set (cells_of m2 p2) = {}
      \<and> set (cells_of m2 p1) \<inter> set (cells_of m2 b) = {}
      \<and> set (cells_of m2 p2) \<inter> set (cells_of m2 b) = {}
      \<and> (\<forall>x c. x \<in> set (cells_of m2 p1) \<longrightarrow>
            observe (m2[x := c]) p2 = Some s \<and> observe (m2[x := c]) b = Some s)
      \<and> (\<forall>x c. x \<in> set (cells_of m2 p2) \<longrightarrow>
            observe (m2[x := c]) p1 = Some s \<and> observe (m2[x := c]) b = Some s)"
proof -
  from build17_mem_fresh [OF assms] obtain p1 m1 where
    first: "build17_mem m b = Some (p1, m1)" and o1: "observe m1 p1 = Some s"
    and c1: "set (cells_of m1 p1) = {length m ..< length m1}"
    and l: "length m < length m1"
    and keep1: "\<forall>r t. observe m r = Some t \<longrightarrow>
      observe m1 r = Some t \<and> cells_of m1 r = cells_of m r"
    by blast
  from keep1 assms have b1: "observe m1 b = Some s" and cb1: "cells_of m1 b = cells_of m b"
    by blast+
  from build17_mem_fresh [OF b1] obtain p2 m2 where
    second: "build17_mem m1 b = Some (p2, m2)" and o2: "observe m2 p2 = Some s"
    and c2: "set (cells_of m2 p2) = {length m1 ..< length m2}"
    and keep2: "\<forall>r t. observe m1 r = Some t \<longrightarrow>
      observe m2 r = Some t \<and> cells_of m2 r = cells_of m1 r"
    by blast
  from keep2 o1 have o1': "observe m2 p1 = Some s" and c1': "cells_of m2 p1 = cells_of m1 p1"
    by blast+
  from keep2 b1 have b2: "observe m2 b = Some s" and cb2: "cells_of m2 b = cells_of m1 b"
    by blast+
  have bl: "set (cells_of m b) \<subseteq> {..< length m}"
    using observe_cells_less [OF assms] by auto
  have d12: "set (cells_of m2 p1) \<inter> set (cells_of m2 p2) = {}"
    unfolding c1' c1 c2 by auto
  have d1b: "set (cells_of m2 p1) \<inter> set (cells_of m2 b) = {}"
    unfolding c1' c1 cb2 cb1 using bl by auto
  have d2b: "set (cells_of m2 p2) \<inter> set (cells_of m2 b) = {}"
    unfolding c2 cb2 cb1 using bl l by auto
  have w1: "\<forall>x c. x \<in> set (cells_of m2 p1) \<longrightarrow>
      observe (m2[x := c]) p2 = Some s \<and> observe (m2[x := c]) b = Some s"
  proof (intro allI impI)
    fix x c
    assume x: "x \<in> set (cells_of m2 p1)"
    from x d12 have "x \<notin> set (cells_of m2 p2)" by blast
    moreover from x d1b have "x \<notin> set (cells_of m2 b)" by blast
    ultimately show "observe (m2[x := c]) p2 = Some s \<and> observe (m2[x := c]) b = Some s"
      using o2 b2 by (simp add: observe_update)
  qed
  have w2: "\<forall>x c. x \<in> set (cells_of m2 p2) \<longrightarrow>
      observe (m2[x := c]) p1 = Some s \<and> observe (m2[x := c]) b = Some s"
  proof (intro allI impI)
    fix x c
    assume x: "x \<in> set (cells_of m2 p2)"
    from x d12 have "x \<notin> set (cells_of m2 p1)" by blast
    moreover from x d2b have "x \<notin> set (cells_of m2 b)" by blast
    ultimately show "observe (m2[x := c]) p1 = Some s \<and> observe (m2[x := c]) b = Some s"
      using o1' b2 by (simp add: observe_update)
  qed
  from first second o1' o2 b2 d12 d1b d2b w1 w2 show ?thesis by blast
qed

lemma observe_new20:
  assumes "observe m b = Some s" and "elems_at m (toppings_ptr b) = Some es"
    and "elems_at m' t = Some es"
    and "\<forall>a \<in> set (crust_ptr b # es). chars_at m' a = chars_at m a"
  shows "observe m' \<lparr>crust_ptr = crust_ptr b, size_val = size_val b, toppings_ptr = t\<rparr> = Some s"
proof -
  from assms(4) have c: "chars_at m' (crust_ptr b) = chars_at m (crust_ptr b)" by simp
  from assms(4) have t: "map (chars_at m') es = map (chars_at m) es" by simp
  have "observe m' \<lparr>crust_ptr = crust_ptr b, size_val = size_val b, toppings_ptr = t\<rparr>
      = observe m b"
    unfolding observe_def by (simp only: Specs_rep.simps c assms(2) assms(3) option.case t)
  with assms(1) show ?thesis by simp
qed

lemma build20_mem_twice:
  assumes "observe m b = Some s"
  shows "\<exists>p1 m1 p2 m2.
      build20_mem m b = Some (p1, m1) \<and> build20_mem m1 b = Some (p2, m2)
      \<and> observe m2 p1 = Some s \<and> observe m2 p2 = Some s \<and> observe m2 b = Some s
      \<and> toppings_ptr p1 \<noteq> toppings_ptr p2
      \<and> toppings_ptr p1 \<noteq> toppings_ptr b
      \<and> toppings_ptr p2 \<noteq> toppings_ptr b
      \<and> (\<forall>c. observe (m2[toppings_ptr p1 := c]) p2 = Some s
             \<and> observe (m2[toppings_ptr p1 := c]) b = Some s)
      \<and> (\<forall>c. observe (m2[toppings_ptr p2 := c]) p1 = Some s
             \<and> observe (m2[toppings_ptr p2 := c]) b = Some s)
      \<and> crust_ptr p1 = crust_ptr b \<and> crust_ptr p2 = crust_ptr b
      \<and> elems_at m2 (toppings_ptr p1) = elems_at m2 (toppings_ptr b)
      \<and> elems_at m2 (toppings_ptr p2) = elems_at m2 (toppings_ptr b)"
proof -
  from assms obtain es where es: "elems_at m (toppings_ptr b) = Some es"
    by (auto simp add: observe_def split: option.splits)
  define m1 where "m1 = m @ [Elems es]"
  define m2 where "m2 = m @ [Elems es] @ [Elems es]"
  define p1 where
    "p1 = \<lparr>crust_ptr = crust_ptr b, size_val = size_val b, toppings_ptr = length m\<rparr>"
  define p2 where
    "p2 = \<lparr>crust_ptr = crust_ptr b, size_val = size_val b, toppings_ptr = length m + 1\<rparr>"
  have cells: "cells_of m b = crust_ptr b # toppings_ptr b # es"
    using es by (simp add: cells_of_def)
  have less: "\<forall>a \<in> set (crust_ptr b # toppings_ptr b # es). a < length m"
    using observe_cells_less [OF assms] cells by simp
  have tb: "toppings_ptr b < length m" using less by simp
  have b1: "observe m1 b = Some s" unfolding m1_def using assms by (rule observe_append)
  have e1: "elems_at m1 (toppings_ptr b) = Some es"
    unfolding m1_def using es tb by (simp add: elems_at_append)
  have first: "build20_mem m b = Some (p1, m1)"
    unfolding p1_def m1_def using assms es by (simp add: build20_mem_def)
  have second: "build20_mem m1 b = Some (p2, m2)"
    using b1 e1 by (simp add: build20_mem_def p2_def m1_def m2_def)
  have same: "\<forall>a \<in> set (crust_ptr b # es). chars_at m2 a = chars_at m a"
    unfolding m2_def using less by (simp add: chars_at_append)
  have t1: "elems_at m2 (length m) = Some es"
    by (simp add: m2_def elems_at_def nth_append)
  have t2: "elems_at m2 (length m + 1) = Some es"
    by (simp add: m2_def elems_at_def nth_append)
  have tb2: "elems_at m2 (toppings_ptr b) = Some es"
    unfolding m2_def using es tb by (simp add: elems_at_append)
  have o1: "observe m2 p1 = Some s"
    unfolding p1_def using assms es t1 same by (rule observe_new20)
  have o2: "observe m2 p2 = Some s"
    unfolding p2_def using assms es t2 same by (rule observe_new20)
  have ob: "observe m2 b = Some s" unfolding m2_def using assms by (rule observe_append)
  have c1: "cells_of m2 p1 = crust_ptr b # length m # es"
    using t1 by (simp add: cells_of_def p1_def)
  have c2: "cells_of m2 p2 = crust_ptr b # (length m + 1) # es"
    using t2 by (simp add: cells_of_def p2_def)
  have cb: "cells_of m2 b = crust_ptr b # toppings_ptr b # es"
    using tb2 by (simp add: cells_of_def)
  have n1: "length m \<notin> set (cells_of m2 p2)" "length m \<notin> set (cells_of m2 b)"
    unfolding c2 cb using less by auto
  have n2: "length m + 1 \<notin> set (cells_of m2 p1)" "length m + 1 \<notin> set (cells_of m2 b)"
    unfolding c1 cb using less by auto
  have q1: "toppings_ptr p1 = length m" by (simp add: p1_def)
  have q2: "toppings_ptr p2 = length m + 1" by (simp add: p2_def)
  have w1: "\<forall>c. observe (m2[toppings_ptr p1 := c]) p2 = Some s
      \<and> observe (m2[toppings_ptr p1 := c]) b = Some s"
    unfolding q1 using observe_update [OF o2 n1(1)] observe_update [OF ob n1(2)] by blast
  have w2: "\<forall>c. observe (m2[toppings_ptr p2 := c]) p1 = Some s
      \<and> observe (m2[toppings_ptr p2 := c]) b = Some s"
    unfolding q2 using observe_update [OF o1 n2(1)] observe_update [OF ob n2(2)] by blast
  have d: "toppings_ptr p1 \<noteq> toppings_ptr p2" "toppings_ptr p1 \<noteq> toppings_ptr b"
    "toppings_ptr p2 \<noteq> toppings_ptr b"
    unfolding q1 q2 using tb by simp_all
  have cr: "crust_ptr p1 = crust_ptr b" "crust_ptr p2 = crust_ptr b"
    by (simp_all add: p1_def p2_def)
  have el: "elems_at m2 (toppings_ptr p1) = elems_at m2 (toppings_ptr b)"
    "elems_at m2 (toppings_ptr p2) = elems_at m2 (toppings_ptr b)"
    unfolding q1 q2 using t1 t2 tb2 by simp_all
  from first second o1 o2 ob d w1 w2 cr el show ?thesis by blast
qed

section \<open>Finalising without a crust\<close>

text \<open>
  C1, as stated, at the C++17 variant: the chain \<^verbatim>\<open>Pizza::Builder{}.size(30).build()\<close>
  never sets the crust, and \<open>build17\<close> returns a Pizza, with the empty crust. The
  statement that \<^verbatim>\<open>build()\<close> fails whenever the crust was never set does not hold there.
\<close>

theorem build17_without_crust_returns_pizza:
  "values_set crust_arg17 [Size17 30] = []
   \<and> build17 (chain17 [Size17 30]) = Pizza \<lparr>crust = [], size_cm = 30, toppings = []\<rparr>"
  by (simp add: values_set_Cons values_set_Nil chain17_def build17_def size17_def
      Builder17_init_def)

text \<open>
  C1, amended. In the C++17 and C++20 variants \<^verbatim>\<open>build()\<close> has no check: it returns a
  Pizza of the Builder's \<^verbatim>\<open>Specs\<close> for every Builder, with an empty crust when the
  chain never set one. In the C++23 variant \<^verbatim>\<open>build()\<close> checks the crust: evaluated
  on a Builder whose crust is empty it stops at \<^verbatim>\<open>throw "Crust type required!"\<close>, and
  only then, and produces no Pizza. A chain that never sets the crust leaves it
  empty, and \<^verbatim>\<open>build()\<close> at its end produces no Pizza; \<^verbatim>\<open>Pizza::Builder{}.build()\<close> stops
  at the throw. A chain whose last crust set is not empty leaves the crust
  non-empty, and \<^verbatim>\<open>build()\<close> at its end does not fail for this reason.
\<close>

theorem build23_checks_crust:
  "(build23 self = Inl (Throw_expression ''Crust type required!''))
      = (crust (Builder_specs self) = [])
   \<and> (crust (Builder_specs self) = [] \<longrightarrow> build23 self \<noteq> Inr z)
   \<and> immediate_build23 [] = Inl (Throw_expression ''Crust type required!'')
   \<and> (values_set crust_arg23 cs = [] \<longrightarrow>
        crust (Builder_specs (chain23 cs)) = [] \<and> immediate_build23 cs \<noteq> Inr z)
   \<and> (last_set crust_arg23 [] cs \<noteq> [] \<longrightarrow>
        crust (Builder_specs (chain23 cs)) \<noteq> []
        \<and> immediate_build23 cs \<noteq> Inl (Throw_expression ''Crust type required!''))
   \<and> specs (build17 b) = Builder_specs b
   \<and> specs (build20 b) = Builder_specs b
   \<and> (values_set crust_arg17 cs17 = [] \<longrightarrow> crust (specs (build17 (chain17 cs17))) = [])"
proof (intro conjI impI)
  show "(build23 self = Inl (Throw_expression ''Crust type required!''))
      = (crust (Builder_specs self) = [])"
    by (simp add: build23_def)
  show "build23 self \<noteq> Inr z" by (rule build23_never_returns)
  show "immediate_build23 [] = Inl (Throw_expression ''Crust type required!'')"
    by (simp add: immediate_build23_def build23_def Builder23_init_def)
  show "immediate_build23 cs \<noteq> Inr z" by (rule immediate_build23_never_returns)
  show "specs (build17 b) = Builder_specs b" by (simp add: build17_def)
  show "specs (build20 b) = Builder_specs b" by (simp add: build20_def)
next
  assume "values_set crust_arg23 cs = []"
  then show "crust (Builder_specs (chain23 cs)) = []"
    by (simp add: chain23_specs last_set_never)
next
  assume a: "last_set crust_arg23 [] cs \<noteq> []"
  then show "crust (Builder_specs (chain23 cs)) \<noteq> []"
    by (simp add: chain23_specs)
  from a have "cs \<noteq> []" by (rule last_set_Nil_default)
  then obtain c cs' where "cs = c # cs'" by (cases cs) auto
  then show "immediate_build23 cs \<noteq> Inl (Throw_expression ''Crust type required!'')"
    by (simp add: immediate_build23_Cons)
next
  assume "values_set crust_arg17 cs17 = []"
  then show "crust (specs (build17 (chain17 cs17))) = []"
    by (simp add: build17_def chain17_specs last_set_never)
qed

theorem build23_checks_crust_witness:
  "crust (Builder_specs Builder23_init) = []
   \<and> build23 Builder23_init = Inl (Throw_expression ''Crust type required!'')
   \<and> values_set crust_arg23 [Size23 30] = []
   \<and> crust (Builder_specs (chain23 [Size23 30])) = []
   \<and> immediate_build23 [Size23 30] = Inl (Non_constexpr_call Fn_size)
   \<and> last_set crust_arg23 [] [Crust23 ''Roman'', Size23 33] = ''Roman''
   \<and> crust (Builder_specs (chain23 [Crust23 ''Roman'', Size23 33])) = ''Roman''
   \<and> immediate_build23 [Crust23 ''Roman'', Size23 33] = Inl (Non_constexpr_call Fn_crust)
   \<and> values_set crust_arg17 [Size17 30] = []
   \<and> crust (specs (build17 (chain17 [Size17 30]))) = []"
  using build23_checks_crust [where self = Builder23_init and cs = "[Size23 30]"
      and ?cs17.0 = "[Size17 30]" and z = "Pizza \<lparr>crust = [], size_cm = 30, toppings = []\<rparr>"]
    build23_checks_crust [where cs = "[Crust23 ''Roman'', Size23 33]"]
  by (simp add: values_set_Cons values_set_Nil last_set_Cons last_set_Nil chain23_specs
      chain17_specs build17_def build23_def Builder23_init_def immediate_build23_Cons)

section \<open>The size constraint of the C++20 variant\<close>

text \<open>
  C2. The claim: the C++20 \<^verbatim>\<open>size\<close> rejects, as a constraint on the template, every
  integer outside [20, 60] and accepts every integer inside. On the code no call
  of \<^verbatim>\<open>size\<close> is accepted, whatever the argument: the type-constraint
  \<^verbatim>\<open>InRange<20, 60> Size\<close> stands for \<^verbatim>\<open>InRange<Size, 20, 60>\<close>, three arguments with a
  type first, for a concept with the two parameters \<^verbatim>\<open>int Min, int Max\<close>. The call
  \<^verbatim>\<open>size(40)\<close> of \<^verbatim>\<open>hawaiian\<close> (line 123), with a value inside the range, is rejected
  like \<^verbatim>\<open>size(90)\<close>.
\<close>

theorem size20_rejects_every_call:
  "\<not> size20_accepted cm \<and> \<not> size20_accepted 40 \<and> \<not> size20_accepted 90"
  by (simp add: size20_accepted_def InRange_constrains_def InRange_parameters_def)

section \<open>A valid chain and the values it sets\<close>

text \<open>
  In the C++17 variant every chain of calls on a fresh Builder builds a Pizza whose
  \<^verbatim>\<open>specs()\<close> has the last crust and the last size set (the defaults "" and 32 when
  none is) and the toppings added, in call order.
\<close>

lemma chain17_builds_last_values:
  "specs (build17 (chain17 cs)) =
     \<lparr>crust = last_set crust_arg17 [] cs, size_cm = last_set size_arg17 32 cs,
      toppings = values_set topping_arg17 cs\<rparr>"
  by (simp add: build17_def chain17_specs)

text \<open>
  C3. The claim: for every chain that sets a non-empty crust and a size in
  [20, 60], \<^verbatim>\<open>build()\<close> succeeds and the Pizza shows the last value set for each
  field. The chain of \<^verbatim>\<open>main\<close> in the C++23 variant (lines 190-197) is such a chain:
  crust "Roman", size 33, four toppings. The Builder it computes holds exactly
  these values, but its \<^verbatim>\<open>build()\<close> yields no Pizza: \<^verbatim>\<open>build\<close> is \<^verbatim>\<open>consteval\<close>, the call
  must be a constant expression, and the evaluation ends at the call of \<^verbatim>\<open>crust\<close>,
  which is not \<^verbatim>\<open>constexpr\<close>; evaluated on the Builder value, the body of \<^verbatim>\<open>build\<close>
  ends at the constructor of Pizza, which is not \<^verbatim>\<open>constexpr\<close> either.
\<close>

theorem build23_of_main_is_rejected:
  "immediate_build23 [Crust23 ''Roman'', Size23 33, Add23 ''Mozzarella'', Add23 ''Parmesan'',
       Add23 ''Gorgonzola'', Add23 ''Ricotta''] = Inl (Non_constexpr_call Fn_crust)
   \<and> Builder_specs (chain23 [Crust23 ''Roman'', Size23 33, Add23 ''Mozzarella'',
       Add23 ''Parmesan'', Add23 ''Gorgonzola'', Add23 ''Ricotta''])
     = \<lparr>crust = ''Roman'', size_cm = 33,
        toppings = [''Mozzarella'', ''Parmesan'', ''Gorgonzola'', ''Ricotta'']\<rparr>
   \<and> build23 (chain23 [Crust23 ''Roman'', Size23 33, Add23 ''Mozzarella'',
       Add23 ''Parmesan'', Add23 ''Gorgonzola'', Add23 ''Ricotta''])
     = Inl (Non_constexpr_call Fn_Pizza)"
  by (simp add: immediate_build23_Cons chain23_def crust23_def size23_def add23_def
      Builder23_init_def build23_def)

section \<open>The end-to-end example\<close>

text \<open>
  C4. The chain of \<^verbatim>\<open>main\<close> in the C++17 variant,
  \<^verbatim>\<open>Pizza::Builder{}.crust("Neapolitan").size(30).addTopping("Tomato").addTopping("Mozzarella").build()\<close>,
  yields a Pizza whose \<^verbatim>\<open>specs()\<close> has crust "Neapolitan", size 30 and the toppings
  "Tomato", "Mozzarella" in that order.
\<close>

theorem margherita_specs:
  "specs (build17 (addTopping17 (addTopping17 (size17 (crust17 Builder17_init
       ''Neapolitan'') 30) ''Tomato'') ''Mozzarella''))
   = \<lparr>crust = ''Neapolitan'', size_cm = 30, toppings = [''Tomato'', ''Mozzarella'']\<rparr>"
  by (simp add: build17_def addTopping17_def size17_def crust17_def Builder17_init_def)

section \<open>Toppings keep their order\<close>

text \<open>
  C5. For every Builder state, \<^verbatim>\<open>addTopping(x)\<close> followed by \<^verbatim>\<open>addTopping(y)\<close> (C++17),
  or \<^verbatim>\<open>add(x)\<close> followed by \<^verbatim>\<open>add(y)\<close> (C++23), appends both in call order: the
  toppings are the Builder's former toppings followed by \<open>x\<close>, \<open>y\<close>; from a fresh
  Builder they are exactly "A", "B". Nothing is removed when \<open>x = y\<close> or when a
  topping is already present: any sequence \<open>ts\<close> of added toppings is appended as
  it is. For the C++17 variant this is the toppings sequence of the built Pizza;
  for the C++23 variant it is the toppings sequence the Builder holds, the one
  \<^verbatim>\<open>build\<close> is given.
\<close>

theorem toppings_appended_in_order:
  "toppings (specs (build17 (addTopping17 (addTopping17 b x) y)))
     = toppings (Builder_specs b) @ [x, y]
   \<and> toppings (specs (build17 (addTopping17 (addTopping17 Builder17_init ''A'') ''B'')))
     = [''A'', ''B'']
   \<and> toppings (specs (build17 (foldl addTopping17 b ts))) = toppings (Builder_specs b) @ ts
   \<and> Builder_specs (add23 (add23 b x) y)
     = (Builder_specs b)\<lparr>toppings := toppings (Builder_specs b) @ [x, y]\<rparr>
   \<and> Builder_specs (add23 (add23 Builder23_init ''A'') ''B'')
     = \<lparr>crust = [], size_cm = 32, toppings = [''A'', ''B'']\<rparr>
   \<and> Builder_specs (foldl add23 b ts)
     = (Builder_specs b)\<lparr>toppings := toppings (Builder_specs b) @ ts\<rparr>"
  by (simp add: build17_def addTopping17_def add23_def
      Builder17_init_def Builder23_init_def foldl_addTopping17 foldl_add23)

section \<open>The bulk setter replaces\<close>

text \<open>
  C6. For every Builder state, the bulk operation \<^verbatim>\<open>toppings(range)\<close> of the C++20
  variant replaces the whole toppings sequence by exactly the given one and leaves
  crust and size as they are. In particular, on a Builder whose toppings end with
  "A" (the state an added topping "A" leaves), and on the fresh Builder after
  \<^verbatim>\<open>toppings({"A"})\<close>, the call \<^verbatim>\<open>toppings({"X"})\<close> leaves the toppings "X" only.
\<close>

theorem toppings20_replaces_all:
  "Builder_specs (toppings20 b r) = (Builder_specs b)\<lparr>toppings := r\<rparr>
   \<and> specs (build20 (toppings20 b r)) = (Builder_specs b)\<lparr>toppings := r\<rparr>
   \<and> toppings (specs (build20 (toppings20 b r))) = r
   \<and> toppings (specs (build20 (toppings20
        (Builder \<lparr>crust = c, size_cm = n, toppings = ts @ [''A'']\<rparr>) [''X'']))) = [''X'']
   \<and> toppings (specs (build20 (toppings20 (toppings20 Builder20_init [''A'']) [''X''])))
        = [''X'']"
  by (simp add: build20_def toppings20_def Builder20_init_def)

section \<open>Building twice\<close>

text \<open>
  C7, as stated, at the C++20 variant. A Builder holds the crust "Pan" and the
  topping "Ham" as \<^verbatim>\<open>std::string_view\<close>s of the caller's characters (cells 0 and 1).
  Two \<^verbatim>\<open>build()\<close> calls return two Pizzas that show the same content and have an
  element array each (cells 3 and 4), but the crust of both is a view of cell 0:
  after the characters there are overwritten with "Tan", both Pizzas show the
  crust "Tan". The storage behind the two Pizzas is aliased.
\<close>

theorem build20_pizzas_share_characters:
  "build20_mem [Chars ''Pan'', Chars ''Ham'', Elems [1]]
       \<lparr>crust_ptr = 0, size_val = 40, toppings_ptr = 2\<rparr>
     = Some (\<lparr>crust_ptr = 0, size_val = 40, toppings_ptr = 3\<rparr>,
             [Chars ''Pan'', Chars ''Ham'', Elems [1], Elems [1]])
   \<and> build20_mem [Chars ''Pan'', Chars ''Ham'', Elems [1], Elems [1]]
       \<lparr>crust_ptr = 0, size_val = 40, toppings_ptr = 2\<rparr>
     = Some (\<lparr>crust_ptr = 0, size_val = 40, toppings_ptr = 4\<rparr>,
             [Chars ''Pan'', Chars ''Ham'', Elems [1], Elems [1], Elems [1]])
   \<and> observe [Chars ''Pan'', Chars ''Ham'', Elems [1], Elems [1], Elems [1]]
       \<lparr>crust_ptr = 0, size_val = 40, toppings_ptr = 3\<rparr>
     = Some \<lparr>crust = ''Pan'', size_cm = 40, toppings = [''Ham'']\<rparr>
   \<and> observe [Chars ''Pan'', Chars ''Ham'', Elems [1], Elems [1], Elems [1]]
       \<lparr>crust_ptr = 0, size_val = 40, toppings_ptr = 4\<rparr>
     = Some \<lparr>crust = ''Pan'', size_cm = 40, toppings = [''Ham'']\<rparr>
   \<and> observe ([Chars ''Pan'', Chars ''Ham'', Elems [1], Elems [1], Elems [1]]
                [0 := Chars ''Tan''])
       \<lparr>crust_ptr = 0, size_val = 40, toppings_ptr = 3\<rparr>
     = Some \<lparr>crust = ''Tan'', size_cm = 40, toppings = [''Ham'']\<rparr>
   \<and> observe ([Chars ''Pan'', Chars ''Ham'', Elems [1], Elems [1], Elems [1]]
                [0 := Chars ''Tan''])
       \<lparr>crust_ptr = 0, size_val = 40, toppings_ptr = 4\<rparr>
     = Some \<lparr>crust = ''Tan'', size_cm = 40, toppings = [''Ham'']\<rparr>"
  by (simp add: build20_mem_def observe_def chars_at_def elems_at_def)

text \<open>
  C7, amended. For every memory and every Builder whose \<^verbatim>\<open>Specs\<close> can be read in it,
  two \<^verbatim>\<open>build()\<close> calls on that Builder return two Pizzas that show the Builder's
  crust, size and toppings, the content \<open>build17\<close> and \<open>build20\<close> compute, and leave
  the Builder as it is.

  In the C++17 variant the cells the first Pizza reads, the cells the second
  reads and the cells the Builder reads are disjoint, and overwriting any cell of
  one Pizza leaves what the other Pizza and the Builder show unchanged.

  In the C++20 variant each Pizza has an element array of its own, different from
  the other's and from the Builder's, and overwriting it leaves what the other
  Pizza and the Builder show unchanged; but the crust of both Pizzas points to the
  characters the Builder's crust points to, and both element arrays hold the
  topping pointers of the Builder's: the characters are shared by the two Pizzas
  and the Builder.
\<close>

theorem build_twice_storage:
  assumes "observe m b = Some s"
  shows "build17 (Builder s) = Pizza s \<and> build20 (Builder s) = Pizza s
   \<and> (\<exists>p1 m1 p2 m2.
      build17_mem m b = Some (p1, m1) \<and> build17_mem m1 b = Some (p2, m2)
      \<and> observe m2 p1 = Some s \<and> observe m2 p2 = Some s \<and> observe m2 b = Some s
      \<and> set (cells_of m2 p1) \<inter> set (cells_of m2 p2) = {}
      \<and> set (cells_of m2 p1) \<inter> set (cells_of m2 b) = {}
      \<and> set (cells_of m2 p2) \<inter> set (cells_of m2 b) = {}
      \<and> (\<forall>x c. x \<in> set (cells_of m2 p1) \<longrightarrow>
            observe (m2[x := c]) p2 = Some s \<and> observe (m2[x := c]) b = Some s)
      \<and> (\<forall>x c. x \<in> set (cells_of m2 p2) \<longrightarrow>
            observe (m2[x := c]) p1 = Some s \<and> observe (m2[x := c]) b = Some s))
   \<and> (\<exists>p1 m1 p2 m2.
      build20_mem m b = Some (p1, m1) \<and> build20_mem m1 b = Some (p2, m2)
      \<and> observe m2 p1 = Some s \<and> observe m2 p2 = Some s \<and> observe m2 b = Some s
      \<and> toppings_ptr p1 \<noteq> toppings_ptr p2
      \<and> toppings_ptr p1 \<noteq> toppings_ptr b
      \<and> toppings_ptr p2 \<noteq> toppings_ptr b
      \<and> (\<forall>c. observe (m2[toppings_ptr p1 := c]) p2 = Some s
             \<and> observe (m2[toppings_ptr p1 := c]) b = Some s)
      \<and> (\<forall>c. observe (m2[toppings_ptr p2 := c]) p1 = Some s
             \<and> observe (m2[toppings_ptr p2 := c]) b = Some s)
      \<and> crust_ptr p1 = crust_ptr b \<and> crust_ptr p2 = crust_ptr b
      \<and> elems_at m2 (toppings_ptr p1) = elems_at m2 (toppings_ptr b)
      \<and> elems_at m2 (toppings_ptr p2) = elems_at m2 (toppings_ptr b))"
proof (intro conjI)
  show "build17 (Builder s) = Pizza s" by (simp add: build17_def)
  show "build20 (Builder s) = Pizza s" by (simp add: build20_def)
  show "\<exists>p1 m1 p2 m2.
      build17_mem m b = Some (p1, m1) \<and> build17_mem m1 b = Some (p2, m2)
      \<and> observe m2 p1 = Some s \<and> observe m2 p2 = Some s \<and> observe m2 b = Some s
      \<and> set (cells_of m2 p1) \<inter> set (cells_of m2 p2) = {}
      \<and> set (cells_of m2 p1) \<inter> set (cells_of m2 b) = {}
      \<and> set (cells_of m2 p2) \<inter> set (cells_of m2 b) = {}
      \<and> (\<forall>x c. x \<in> set (cells_of m2 p1) \<longrightarrow>
            observe (m2[x := c]) p2 = Some s \<and> observe (m2[x := c]) b = Some s)
      \<and> (\<forall>x c. x \<in> set (cells_of m2 p2) \<longrightarrow>
            observe (m2[x := c]) p1 = Some s \<and> observe (m2[x := c]) b = Some s)"
    using assms by (rule build17_mem_twice)
  show "\<exists>p1 m1 p2 m2.
      build20_mem m b = Some (p1, m1) \<and> build20_mem m1 b = Some (p2, m2)
      \<and> observe m2 p1 = Some s \<and> observe m2 p2 = Some s \<and> observe m2 b = Some s
      \<and> toppings_ptr p1 \<noteq> toppings_ptr p2
      \<and> toppings_ptr p1 \<noteq> toppings_ptr b
      \<and> toppings_ptr p2 \<noteq> toppings_ptr b
      \<and> (\<forall>c. observe (m2[toppings_ptr p1 := c]) p2 = Some s
             \<and> observe (m2[toppings_ptr p1 := c]) b = Some s)
      \<and> (\<forall>c. observe (m2[toppings_ptr p2 := c]) p1 = Some s
             \<and> observe (m2[toppings_ptr p2 := c]) b = Some s)
      \<and> crust_ptr p1 = crust_ptr b \<and> crust_ptr p2 = crust_ptr b
      \<and> elems_at m2 (toppings_ptr p1) = elems_at m2 (toppings_ptr b)
      \<and> elems_at m2 (toppings_ptr p2) = elems_at m2 (toppings_ptr b)"
    using assms by (rule build20_mem_twice)
qed

theorem build_twice_storage_witness:
  "observe [Chars ''Pan'', Chars ''Ham'', Elems [1]]
       \<lparr>crust_ptr = 0, size_val = 40, toppings_ptr = 2\<rparr>
     = Some \<lparr>crust = ''Pan'', size_cm = 40, toppings = [''Ham'']\<rparr>
   \<and> build17_mem [Chars ''Pan'', Chars ''Ham'', Elems [1]]
       \<lparr>crust_ptr = 0, size_val = 40, toppings_ptr = 2\<rparr>
     = Some (\<lparr>crust_ptr = 3, size_val = 40, toppings_ptr = 4\<rparr>,
             [Chars ''Pan'', Chars ''Ham'', Elems [1], Chars ''Pan'', Elems [5], Chars ''Ham''])
   \<and> build17_mem
       [Chars ''Pan'', Chars ''Ham'', Elems [1], Chars ''Pan'', Elems [5], Chars ''Ham'']
       \<lparr>crust_ptr = 0, size_val = 40, toppings_ptr = 2\<rparr>
     = Some (\<lparr>crust_ptr = 6, size_val = 40, toppings_ptr = 7\<rparr>,
             [Chars ''Pan'', Chars ''Ham'', Elems [1], Chars ''Pan'', Elems [5], Chars ''Ham'',
              Chars ''Pan'', Elems [8], Chars ''Ham''])
   \<and> observe ([Chars ''Pan'', Chars ''Ham'', Elems [1], Chars ''Pan'', Elems [5],
                Chars ''Ham'', Chars ''Pan'', Elems [8], Chars ''Ham''][3 := Chars ''Tan''])
       \<lparr>crust_ptr = 6, size_val = 40, toppings_ptr = 7\<rparr>
     = Some \<lparr>crust = ''Pan'', size_cm = 40, toppings = [''Ham'']\<rparr>"
proof -
  have h: "observe [Chars ''Pan'', Chars ''Ham'', Elems [1]]
       \<lparr>crust_ptr = 0, size_val = 40, toppings_ptr = 2\<rparr>
     = Some \<lparr>crust = ''Pan'', size_cm = 40, toppings = [''Ham'']\<rparr>"
    by (simp add: observe_def chars_at_def elems_at_def)
  have u: "[5 ..< 6] = [5::nat]" "[8 ..< 9] = [8::nat]"
    by (simp_all add: upt_rec)
  from build_twice_storage [OF h] h u
  show ?thesis
    by (simp add: build17_mem_def observe_def chars_at_def elems_at_def)
qed

section \<open>What changes a Pizza\<close>

text \<open>
  C8, as stated: no operation ever changes a field of an existing Product. A client
  of the C++17 variant builds a "Thin" Pizza (address 1) and a "Pan" Pizza
  (address 2) from one Builder. Then \<^verbatim>\<open>p = q;\<close>, the copy assignment that class Pizza
  is given implicitly, makes the crust of the Pizza at address 1 "Pan". And
  \<^verbatim>\<open>Pizza r = std::move(p);\<close>, the implicit move constructor, constructs a Pizza
  without \<^verbatim>\<open>build()\<close> and, where the library empties what it moves from, leaves
  the Pizza at address 1 with no crust.
\<close>

theorem assignment_changes_pizza:
  "program17 [New_Builder, Configure 0 (Crust17 ''Thin''), Build 0,
       Configure 0 (Crust17 ''Pan''), Build 0] []
     = Some [BuilderObj (Builder \<lparr>crust = ''Pan'', size_cm = 32, toppings = []\<rparr>),
             PizzaObj (Pizza \<lparr>crust = ''Thin'', size_cm = 32, toppings = []\<rparr>),
             PizzaObj (Pizza \<lparr>crust = ''Pan'', size_cm = 32, toppings = []\<rparr>)]
   \<and> perform17 (Assign_Pizza 1 2)
       [BuilderObj (Builder \<lparr>crust = ''Pan'', size_cm = 32, toppings = []\<rparr>),
        PizzaObj (Pizza \<lparr>crust = ''Thin'', size_cm = 32, toppings = []\<rparr>),
        PizzaObj (Pizza \<lparr>crust = ''Pan'', size_cm = 32, toppings = []\<rparr>)]
     = Some [BuilderObj (Builder \<lparr>crust = ''Pan'', size_cm = 32, toppings = []\<rparr>),
             PizzaObj (Pizza \<lparr>crust = ''Pan'', size_cm = 32, toppings = []\<rparr>),
             PizzaObj (Pizza \<lparr>crust = ''Pan'', size_cm = 32, toppings = []\<rparr>)]
   \<and> perform17 (Move_Pizza 1 [] [])
       [BuilderObj (Builder \<lparr>crust = ''Pan'', size_cm = 32, toppings = []\<rparr>),
        PizzaObj (Pizza \<lparr>crust = ''Thin'', size_cm = 32, toppings = []\<rparr>),
        PizzaObj (Pizza \<lparr>crust = ''Pan'', size_cm = 32, toppings = []\<rparr>)]
     = Some [BuilderObj (Builder \<lparr>crust = ''Pan'', size_cm = 32, toppings = []\<rparr>),
             PizzaObj (Pizza \<lparr>crust = [], size_cm = 32, toppings = []\<rparr>),
             PizzaObj (Pizza \<lparr>crust = ''Pan'', size_cm = 32, toppings = []\<rparr>),
             PizzaObj (Pizza \<lparr>crust = ''Thin'', size_cm = 32, toppings = []\<rparr>)]
   \<and> crust (specs (Pizza \<lparr>crust = ''Thin'', size_cm = 32, toppings = []\<rparr>))
       \<noteq> crust (specs (Pizza \<lparr>crust = ''Pan'', size_cm = 32, toppings = []\<rparr>))"
  by (simp add: new_object_def call17_on_def build17_on_def builder_at_def pizza_at_def
      Builder17_init_def crust17_def build17_def moved_from_def)

text \<open>
  C8, amended, for the C++17 variant. The accessor \<^verbatim>\<open>specs()\<close>, the only member
  function class Pizza declares public, changes no object. No member function that
  Pizza or Builder declares changes an existing Pizza, and no member function of
  Builder does: through every client program in which the Pizza at \<open>p\<close> is neither
  assigned to nor moved from, that Pizza keeps its \<^verbatim>\<open>Specs\<close>. Only the copy and move
  operations that C++ declares implicitly for class Pizza change a Pizza. A Pizza
  found at an address after a statement was there before, or was returned by
  \<^verbatim>\<open>build()\<close> on a Builder in that statement, or holds the \<^verbatim>\<open>Specs\<close> of an existing Pizza
  that the statement copied or moved, or is what the statement's move left of the
  Pizza there; no other statement constructs one.
\<close>

theorem pizza_changes_only_by_copy_or_move:
  "(program17 acts st = Some st' \<and> pizza_at st p = Some z
      \<and> \<not> list_ex (overwrites p) acts \<longrightarrow> pizza_at st' p = Some z)
   \<and> (perform17 (Read_Specs p) st = Some st1 \<longrightarrow> st1 = st)
   \<and> (perform17 act st = Some st2 \<and> pizza_at st2 q = Some y \<longrightarrow>
        pizza_at st q = Some y
        \<or> (\<exists>a b. act = Build a \<and> builder_at st a = Some b \<and> q = length st
                 \<and> y = build17 b)
        \<or> (\<exists>q'. source_of act = Some q' \<and> pizza_at st q' = Some y)
        \<or> (\<exists>x lc lt. source_of act = Some q \<and> pizza_at st q = Some x
                 \<and> y = Pizza (moved_from (specs x) lc lt)))"
proof (intro conjI impI)
  assume "program17 acts st = Some st' \<and> pizza_at st p = Some z
      \<and> \<not> list_ex (overwrites p) acts"
  then show "pizza_at st' p = Some z"
    using program17_keeps_pizza by blast
next
  assume "perform17 (Read_Specs p) st = Some st1"
  then show "st1 = st" by (simp split: option.splits)
next
  assume "perform17 act st = Some st2 \<and> pizza_at st2 q = Some y"
  then show "pizza_at st q = Some y
        \<or> (\<exists>a b. act = Build a \<and> builder_at st a = Some b \<and> q = length st
                 \<and> y = build17 b)
        \<or> (\<exists>q'. source_of act = Some q' \<and> pizza_at st q' = Some y)
        \<or> (\<exists>x lc lt. source_of act = Some q \<and> pizza_at st q = Some x
                 \<and> y = Pizza (moved_from (specs x) lc lt))"
    using perform17_pizza_origin [of act st st2 q y] by simp
qed

theorem pizza_changes_only_by_copy_or_move_witness:
  "program17 [Configure 0 (Crust17 ''Pan''), Build 0, Copy_Pizza 1, Read_Specs 2,
       Move_Pizza 2 [] [], Move_Builder 0 [] [], Assign_Pizza 3 2]
       [BuilderObj (Builder \<lparr>crust = ''Thin'', size_cm = 32, toppings = []\<rparr>),
        PizzaObj (Pizza \<lparr>crust = ''Thin'', size_cm = 32, toppings = []\<rparr>)]
     = Some [BuilderObj (Builder \<lparr>crust = [], size_cm = 32, toppings = []\<rparr>),
             PizzaObj (Pizza \<lparr>crust = ''Thin'', size_cm = 32, toppings = []\<rparr>),
             PizzaObj (Pizza \<lparr>crust = [], size_cm = 32, toppings = []\<rparr>),
             PizzaObj (Pizza \<lparr>crust = [], size_cm = 32, toppings = []\<rparr>),
             PizzaObj (Pizza \<lparr>crust = ''Pan'', size_cm = 32, toppings = []\<rparr>),
             BuilderObj (Builder \<lparr>crust = ''Pan'', size_cm = 32, toppings = []\<rparr>)]
   \<and> pizza_at [BuilderObj (Builder \<lparr>crust = ''Thin'', size_cm = 32, toppings = []\<rparr>),
        PizzaObj (Pizza \<lparr>crust = ''Thin'', size_cm = 32, toppings = []\<rparr>)] 1
     = Some (Pizza \<lparr>crust = ''Thin'', size_cm = 32, toppings = []\<rparr>)
   \<and> \<not> list_ex (overwrites 1)
         [Configure 0 (Crust17 ''Pan''), Build 0, Copy_Pizza 1, Read_Specs 2,
          Move_Pizza 2 [] [], Move_Builder 0 [] [], Assign_Pizza 3 2]
   \<and> pizza_at [BuilderObj (Builder \<lparr>crust = [], size_cm = 32, toppings = []\<rparr>),
             PizzaObj (Pizza \<lparr>crust = ''Thin'', size_cm = 32, toppings = []\<rparr>),
             PizzaObj (Pizza \<lparr>crust = [], size_cm = 32, toppings = []\<rparr>),
             PizzaObj (Pizza \<lparr>crust = [], size_cm = 32, toppings = []\<rparr>),
             PizzaObj (Pizza \<lparr>crust = ''Pan'', size_cm = 32, toppings = []\<rparr>),
             BuilderObj (Builder \<lparr>crust = ''Pan'', size_cm = 32, toppings = []\<rparr>)] 1
     = Some (Pizza \<lparr>crust = ''Thin'', size_cm = 32, toppings = []\<rparr>)
   \<and> perform17 (Build 0)
       [BuilderObj (Builder \<lparr>crust = ''Thin'', size_cm = 32, toppings = []\<rparr>)]
     = Some [BuilderObj (Builder \<lparr>crust = ''Thin'', size_cm = 32, toppings = []\<rparr>),
             PizzaObj (Pizza \<lparr>crust = ''Thin'', size_cm = 32, toppings = []\<rparr>)]
   \<and> pizza_at [BuilderObj (Builder \<lparr>crust = ''Thin'', size_cm = 32, toppings = []\<rparr>),
             PizzaObj (Pizza \<lparr>crust = ''Thin'', size_cm = 32, toppings = []\<rparr>)] 1
     = Some (build17 (Builder \<lparr>crust = ''Thin'', size_cm = 32, toppings = []\<rparr>))"
  using pizza_changes_only_by_copy_or_move [where
      acts = "[Configure 0 (Crust17 ''Pan''), Build 0, Copy_Pizza 1, Read_Specs 2,
          Move_Pizza 2 [] [], Move_Builder 0 [] [], Assign_Pizza 3 2]"
      and st = "[BuilderObj (Builder \<lparr>crust = ''Thin'', size_cm = 32, toppings = []\<rparr>),
        PizzaObj (Pizza \<lparr>crust = ''Thin'', size_cm = 32, toppings = []\<rparr>)]"
      and st' = "[BuilderObj (Builder \<lparr>crust = [], size_cm = 32, toppings = []\<rparr>),
             PizzaObj (Pizza \<lparr>crust = ''Thin'', size_cm = 32, toppings = []\<rparr>),
             PizzaObj (Pizza \<lparr>crust = [], size_cm = 32, toppings = []\<rparr>),
             PizzaObj (Pizza \<lparr>crust = [], size_cm = 32, toppings = []\<rparr>),
             PizzaObj (Pizza \<lparr>crust = ''Pan'', size_cm = 32, toppings = []\<rparr>),
             BuilderObj (Builder \<lparr>crust = ''Pan'', size_cm = 32, toppings = []\<rparr>)]"
      and p = 1 and z = "Pizza \<lparr>crust = ''Thin'', size_cm = 32, toppings = []\<rparr>"]
    pizza_changes_only_by_copy_or_move [where act = "Build 0"
      and st = "[BuilderObj (Builder \<lparr>crust = ''Thin'', size_cm = 32, toppings = []\<rparr>)]"
      and ?st2.0 = "[BuilderObj (Builder \<lparr>crust = ''Thin'', size_cm = 32, toppings = []\<rparr>),
             PizzaObj (Pizza \<lparr>crust = ''Thin'', size_cm = 32, toppings = []\<rparr>)]"
      and q = 1 and y = "Pizza \<lparr>crust = ''Thin'', size_cm = 32, toppings = []\<rparr>"]
  by (simp add: new_object_def call17_on_def build17_on_def builder_at_def pizza_at_def
      Builder17_init_def crust17_def build17_def moved_from_def)

section \<open>Configuration calls of the C++23 variant return a snapshot\<close>

text \<open>
  C9. In the C++23 variant every configuration call (\<^verbatim>\<open>crust\<close>, \<^verbatim>\<open>size\<close>, \<^verbatim>\<open>add\<close>) on a
  Builder returns a new Builder object holding the updated \<^verbatim>\<open>Specs\<close>. The Builder the
  call was made on is unchanged, and so is every other object of the store: a
  caller holding another Builder, or that one, observes nothing of the call.
\<close>

theorem config23_returns_snapshot:
  assumes "builder_at st a = Some b"
  shows "\<exists>r st'. call23_on a c st = Some (r, st')
           \<and> r = length st \<and> r \<noteq> a
           \<and> builder_at st' r = Some (apply23 b c)
           \<and> builder_at st' a = Some b
           \<and> take (length st) st' = st
           \<and> (\<forall>x. x \<noteq> r \<longrightarrow>
                 builder_at st' x = builder_at st x \<and> pizza_at st' x = pizza_at st x)"
proof -
  have less: "a < length st" using assms by (rule builder_at_less)
  have "call23_on a c st = Some (length st, st @ [BuilderObj (apply23 b c)])"
    using assms by (simp add: call23_on_def new_object_def)
  moreover have "length st \<noteq> a" using less by simp
  moreover have "builder_at (st @ [BuilderObj (apply23 b c)]) (length st) = Some (apply23 b c)"
    by (simp add: builder_at_append)
  moreover have "builder_at (st @ [BuilderObj (apply23 b c)]) a = Some b"
    using assms less by (simp add: builder_at_append)
  moreover have "\<forall>x. x \<noteq> length st \<longrightarrow>
      builder_at (st @ [BuilderObj (apply23 b c)]) x = builder_at st x
      \<and> pizza_at (st @ [BuilderObj (apply23 b c)]) x = pizza_at st x"
    by (simp add: builder_at_append pizza_at_append builder_at_out pizza_at_out)
  ultimately show ?thesis by simp
qed

theorem config23_returns_snapshot_witness:
  "builder_at [BuilderObj (crust23 Builder23_init ''Roman'')] 0
     = Some (crust23 Builder23_init ''Roman'')
   \<and> call23_on 0 (Add23 ''Ricotta'') [BuilderObj (crust23 Builder23_init ''Roman'')]
     = Some (1, [BuilderObj (crust23 Builder23_init ''Roman''),
                 BuilderObj (add23 (crust23 Builder23_init ''Roman'') ''Ricotta'')])"
proof -
  have h: "builder_at [BuilderObj (crust23 Builder23_init ''Roman'')] 0
     = Some (crust23 Builder23_init ''Roman'')"
    by (simp add: builder_at_def)
  from config23_returns_snapshot [OF h, of "Add23 ''Ricotta''"] h
  show ?thesis by (simp add: call23_on_def new_object_def)
qed

section \<open>The default size\<close>

text \<open>
  C10. In each of the three variants a default-constructed Builder holds the empty
  crust, size 32 and no toppings. For every chain of calls on it without a \<^verbatim>\<open>size\<close>
  call, the size is 32: that of the built Pizza in the C++17 and C++20 variants,
  and that of the Builder \<^verbatim>\<open>build\<close> is given in the C++23 variant.
\<close>

theorem default_size_is_32:
  "Builder_specs Builder17_init = \<lparr>crust = [], size_cm = 32, toppings = []\<rparr>
   \<and> Builder_specs Builder20_init = \<lparr>crust = [], size_cm = 32, toppings = []\<rparr>
   \<and> Builder_specs Builder23_init = \<lparr>crust = [], size_cm = 32, toppings = []\<rparr>
   \<and> (values_set size_arg17 cs17 = [] \<longrightarrow> size_cm (specs (build17 (chain17 cs17))) = 32)
   \<and> (values_set size_arg20 cs20 = [] \<longrightarrow> size_cm (specs (build20 (chain20 cs20))) = 32)
   \<and> (values_set size_arg23 cs23 = [] \<longrightarrow> size_cm (Builder_specs (chain23 cs23)) = 32)"
  by (simp add: Builder17_init_def Builder20_init_def Builder23_init_def build17_def
      build20_def chain17_specs chain20_specs chain23_specs last_set_never)

theorem default_size_is_32_witness:
  "values_set size_arg17 [Crust17 ''Thin'', AddTopping17 ''Ham''] = []
   \<and> size_cm (specs (build17 (chain17 [Crust17 ''Thin'', AddTopping17 ''Ham'']))) = 32
   \<and> values_set size_arg20 [Crust20 ''Pan'', Toppings20 [''Ham'']] = []
   \<and> size_cm (specs (build20 (chain20 [Crust20 ''Pan'', Toppings20 [''Ham'']]))) = 32
   \<and> values_set size_arg23 [Crust23 ''Roman'', Add23 ''Ricotta''] = []
   \<and> Builder_specs (chain23 [Crust23 ''Roman'', Add23 ''Ricotta''])
       = \<lparr>crust = ''Roman'', size_cm = 32, toppings = [''Ricotta'']\<rparr>"
  using default_size_is_32 [of "[Crust17 ''Thin'', AddTopping17 ''Ham'']"
      "[Crust20 ''Pan'', Toppings20 [''Ham'']]" "[Crust23 ''Roman'', Add23 ''Ricotta'']"]
  by (simp add: values_set_Cons values_set_Nil last_set_Cons last_set_Nil chain23_specs)

end
